theory Spec2Isabelle
  imports Main
begin

section \<open>Values that cross the HTTP boundary\<close>

text \<open>
  The service of \<^verbatim>\<open>src/unnamed/part_001\<close> (lines 1 to 278) is an Express application
  over a MySQL pool. Request bodies and response bodies are JSON. A JavaScript string is
  modelled as a \<^typ>\<open>string\<close>, one element per UTF-16 code unit, so that
  \<^term>\<open>length\<close> is the \<^verbatim>\<open>.length\<close> that zod compares. Only the kind of a JSON
  number is ever inspected by the validators, so numbers are integers here. An object is
  the list of its properties, each key once, as \<^verbatim>\<open>JSON.parse\<close> leaves them.
  \<open>JUndefined\<close> is JavaScript's \<^verbatim>\<open>undefined\<close>: a missing body or a missing
  property.
\<close>

datatype json =
    JUndefined
  | JNull
  | JBool bool
  | JNum int
  | JStr string
  | JArr "json list"
  | JObj "(string \<times> json) list"

record response =
  status :: nat
  body :: json

text \<open>\<^verbatim>\<open>res.status(n).json({ error: msg })\<close>\<close>

definition error_response :: "nat \<Rightarrow> string \<Rightarrow> response" where
  "error_response n msg = \<lparr>status = n, body = JObj [(''error'', JStr msg)]\<rparr>"

text \<open>Reading a property of a parsed object: \<^verbatim>\<open>data[key]\<close>.\<close>

definition field :: "(string \<times> json) list \<Rightarrow> string \<Rightarrow> json" where
  "field kvs k = (case map_of kvs k of None \<Rightarrow> JUndefined | Some v \<Rightarrow> v)"

section \<open>The zod schemas\<close>

text \<open>
  zod (version 3, whose \<^verbatim>\<open>ZodError\<close> carries \<^verbatim>\<open>.errors\<close>) is a library outside the
  repository. What the schemas of lines 23 to 31 and 96 to 99 use of it is written out:
  \<^verbatim>\<open>z.string()\<close> refuses a value that is not a string with an \<^verbatim>\<open>invalid_type\<close> issue
  and otherwise runs its checks; \<^verbatim>\<open>z.object\<close> refuses a value that is not an object
  with one issue at the empty path and otherwise parses every key of its shape, in the
  order of the shape, collecting the issues of all of them; unknown keys are dropped.
\<close>

datatype zod_type = ZUndefined | ZNull | ZBoolean | ZNumber | ZString | ZArray | ZObject

fun getParsedType :: "json \<Rightarrow> zod_type" where
  "getParsedType JUndefined = ZUndefined"
| "getParsedType JNull = ZNull"
| "getParsedType (JBool _) = ZBoolean"
| "getParsedType (JNum _) = ZNumber"
| "getParsedType (JStr _) = ZString"
| "getParsedType (JArr _) = ZArray"
| "getParsedType (JObj _) = ZObject"

datatype zod_issue =
    InvalidType (issue_path: "string list") zod_type zod_type
  | TooSmall (issue_path: "string list") nat string
  | InvalidString (issue_path: "string list") string string

fun zod_type_name :: "zod_type \<Rightarrow> string" where
  "zod_type_name ZUndefined = ''undefined''"
| "zod_type_name ZNull = ''null''"
| "zod_type_name ZBoolean = ''boolean''"
| "zod_type_name ZNumber = ''number''"
| "zod_type_name ZString = ''string''"
| "zod_type_name ZArray = ''array''"
| "zod_type_name ZObject = ''object''"

text \<open>An issue as it is serialised into \<^verbatim>\<open>details: error.errors\<close>.\<close>

fun issue_json :: "zod_issue \<Rightarrow> json" where
  "issue_json (InvalidType p e r) =
     JObj [(''code'', JStr ''invalid_type''),
           (''expected'', JStr (zod_type_name e)),
           (''received'', JStr (zod_type_name r)),
           (''path'', JArr (map JStr p)),
           (''message'', JStr (if r = ZUndefined then ''Required''
              else ''Expected '' @ zod_type_name e @ '', received '' @ zod_type_name r))]"
| "issue_json (TooSmall p n msg) =
     JObj [(''code'', JStr ''too_small''),
           (''minimum'', JNum (int n)),
           (''type'', JStr ''string''),
           (''inclusive'', JBool True),
           (''exact'', JBool False),
           (''message'', JStr msg),
           (''path'', JArr (map JStr p))]"
| "issue_json (InvalidString p v msg) =
     JObj [(''validation'', JStr v),
           (''code'', JStr ''invalid_string''),
           (''message'', JStr msg),
           (''path'', JArr (map JStr p))]"

text \<open>\<^verbatim>\<open>z.string().min(n, msg)\<close> at path \<open>p\<close>.\<close>

definition string_min :: "nat \<Rightarrow> string \<Rightarrow> string list \<Rightarrow> json \<Rightarrow> zod_issue list + string" where
  "string_min n msg p v =
     (case v of
        JStr s \<Rightarrow> if length s < n then Inl [TooSmall p n msg] else Inr s
      | _ \<Rightarrow> Inl [InvalidType p ZString (getParsedType v)])"

text \<open>
  \<^verbatim>\<open>z.string().email()\<close> at path \<open>p\<close>. The regular expression zod matches against is
  not in the repository: \<open>ok\<close> stands for it.
\<close>

definition string_email :: "(string \<Rightarrow> bool) \<Rightarrow> string list \<Rightarrow> json \<Rightarrow> zod_issue list + string" where
  "string_email ok p v =
     (case v of
        JStr s \<Rightarrow> if ok s then Inr s else Inl [InvalidString p ''email'' ''Invalid email'']
      | _ \<Rightarrow> Inl [InvalidType p ZString (getParsedType v)])"

fun issues_of :: "zod_issue list + 'a \<Rightarrow> zod_issue list" where
  "issues_of (Inl is) = is"
| "issues_of (Inr _) = []"

text \<open>\<^verbatim>\<open>z.object({ k1: f1, k2: f2 }).parse(v)\<close>; \<open>Inl\<close> is the thrown \<^verbatim>\<open>ZodError\<close>.\<close>

definition zod_object ::
  "string \<Rightarrow> (string list \<Rightarrow> json \<Rightarrow> zod_issue list + 'a) \<Rightarrow>
   string \<Rightarrow> (string list \<Rightarrow> json \<Rightarrow> zod_issue list + 'b) \<Rightarrow>
   json \<Rightarrow> zod_issue list + ('a \<times> 'b)" where
  "zod_object k1 f1 k2 f2 v =
     (case v of
        JObj kvs \<Rightarrow>
          (let r1 = f1 [k1] (field kvs k1); r2 = f2 [k2] (field kvs k2) in
           case r1 of
             Inl is1 \<Rightarrow> Inl (is1 @ issues_of r2)
           | Inr a \<Rightarrow> (case r2 of Inl is2 \<Rightarrow> Inl is2 | Inr b \<Rightarrow> Inr (a, b)))
      | _ \<Rightarrow> Inl [InvalidType [] ZObject (getParsedType v)])"

text \<open>Lines 23 to 26.\<close>

definition employeeSchema :: "json \<Rightarrow> zod_issue list + (string \<times> string)" where
  "employeeSchema =
     zod_object ''name'' (string_min 2 ''Name must be at least 2 characters'')
                ''position'' (string_min 2 ''Position cannot be empty'')"

text \<open>Lines 28 to 31.\<close>

definition userSchema :: "(string \<Rightarrow> bool) \<Rightarrow> json \<Rightarrow> zod_issue list + (string \<times> string)" where
  "userSchema ok =
     zod_object ''email'' (string_email ok)
                ''password'' (string_min 6 ''String must contain at least 6 character(s)'')"

text \<open>Lines 96 to 99: the schema the login route builds in place.\<close>

definition loginSchema :: "(string \<Rightarrow> bool) \<Rightarrow> json \<Rightarrow> zod_issue list + (string \<times> string)" where
  "loginSchema ok =
     zod_object ''email'' (string_email ok)
                ''password'' (string_min 1 ''Password cannot be empty'')"

text \<open>The 400 answer of the handlers that look for a \<^verbatim>\<open>ZodError\<close>.\<close>

definition validation_response :: "string \<Rightarrow> zod_issue list \<Rightarrow> response" where
  "validation_response msg is =
     \<lparr>status = 400,
      body = JObj [(''error'', JStr msg), (''details'', JArr (map issue_json is))]\<rparr>"

section \<open>What the process is configured with\<close>

text \<open>
  The libraries and the server settings the handlers depend on are not in the repository.
  They are parameters of the model, gathered in one record:
  \<^item> \<open>email_ok\<close>: the shape test of \<^verbatim>\<open>z.string().email()\<close>;
  \<^item> \<open>bcrypt_hash\<close>, \<open>bcrypt_compare\<close>: \<^verbatim>\<open>bcrypt.hash(p, 10)\<close> (the salt it
    draws is part of the function) and \<^verbatim>\<open>bcrypt.compare\<close>;
  \<^item> \<open>jwt_mac\<close>: the signature over a token's claims under \<^verbatim>\<open>JWT_SECRET\<close>;
    \<open>jwt_encode\<close>, \<open>jwt_decode\<close>: the token's serialisation and its parser
    (\<open>None\<close> on a malformed string);
  \<^item> \<open>sql_strict\<close>: whether the MySQL server runs in strict SQL mode;
  \<^item> \<open>sql_id_of\<close>: the number MySQL reads the bound string \<^verbatim>\<open>req.params.id\<close> as
    when it compares it with the \<^verbatim>\<open>INT\<close> column \<^verbatim>\<open>id\<close> (\<open>None\<close> when it is
    no row identifier at all);
  \<^item> \<open>sql_id_cut\<close>: whether MySQL reads that string as a number only by cutting
    it short (as \<^verbatim>\<open>1abc\<close>, read as 1), which it warns about.
\<close>

record claims =
  claim_userId :: nat
  claim_iat :: nat
  claim_exp :: nat

record env =
  email_ok :: "string \<Rightarrow> bool"
  bcrypt_hash :: "string \<Rightarrow> string"
  bcrypt_compare :: "string \<Rightarrow> string \<Rightarrow> bool"
  jwt_mac :: "claims \<Rightarrow> string"
  jwt_encode :: "claims \<times> string \<Rightarrow> string"
  jwt_decode :: "string \<Rightarrow> (claims \<times> string) option"
  sql_strict :: bool
  sql_id_of :: "string \<Rightarrow> nat option"
  sql_id_cut :: "string \<Rightarrow> bool"

section \<open>The token service\<close>

text \<open>
  Modelled from the spec: the token service. The handlers call \<^verbatim>\<open>jwt.sign\<close> and
  \<^verbatim>\<open>jwt.verify\<close> of the jsonwebtoken library, which is not under src/. Section 4.4 of
  the spec: \<^emph>\<open>issue\<close> embeds the subject id, issued-at and expiry = issued-at + 1 hour
  and signs; \<^emph>\<open>verify\<close> validates the signature first, then checks the expiry; a
  malformed token or a signature mismatch is Invalid, a well-signed token whose time has
  lapsed is Expired. Times are in seconds. The two failures are the library's
  \<^verbatim>\<open>JsonWebTokenError\<close> and \<^verbatim>\<open>TokenExpiredError\<close>.
\<close>

datatype jwt_error = JsonWebTokenError | TokenExpiredError

definition jwt_sign :: "env \<Rightarrow> nat \<Rightarrow> nat \<Rightarrow> string" where
  "jwt_sign e now uid =
     (let c = \<lparr>claim_userId = uid, claim_iat = now, claim_exp = now + 3600\<rparr>
      in jwt_encode e (c, jwt_mac e c))"

text \<open>
  Modelled from the spec: \<^emph>\<open>verify\<close> of section 4.4 (\<^verbatim>\<open>jwt.verify\<close> is not under
  src/). A token is expired from the second of its expiry on.
\<close>

definition jwt_verify :: "env \<Rightarrow> nat \<Rightarrow> string \<Rightarrow> jwt_error + claims" where
  "jwt_verify e now tok =
     (case jwt_decode e tok of
        None \<Rightarrow> Inl JsonWebTokenError
      | Some (c, sg) \<Rightarrow>
          if sg \<noteq> jwt_mac e c then Inl JsonWebTokenError
          else if claim_exp c \<le> now then Inl TokenExpiredError
          else Inr c)"

section \<open>The authenticate middleware\<close>

text \<open>\<^verbatim>\<open>s.split(d)\<close> for a one-character separator.\<close>

fun js_split :: "char \<Rightarrow> string \<Rightarrow> string list" where
  "js_split d [] = [[]]"
| "js_split d (c # cs) =
     (if c = d then [] # js_split d cs
      else (case js_split d cs of [] \<Rightarrow> [[c]] | w # ws \<Rightarrow> (c # w) # ws))"

text \<open>
  Line 57: \<^verbatim>\<open>req.headers.authorization?.split(' ')[1]\<close>. \<open>None\<close> is
  \<^verbatim>\<open>undefined\<close>: no header, or a header without a space.
\<close>

definition bearer_token :: "string option \<Rightarrow> string option" where
  "bearer_token h =
     (case h of
        None \<Rightarrow> None
      | Some a \<Rightarrow> (case js_split (CHR '' '') a of _ # t # _ \<Rightarrow> Some t | _ \<Rightarrow> None))"

text \<open>
  Lines 56 to 67. \<open>Inl\<close> is the response the middleware sends itself; \<open>Inr\<close> is
  the call of \<^verbatim>\<open>next()\<close>, with the decoded claims it stored in \<^verbatim>\<open>req.user\<close>.
  \<^verbatim>\<open>!token\<close> holds for \<^verbatim>\<open>undefined\<close> and for the empty string.
\<close>

definition authenticate :: "env \<Rightarrow> nat \<Rightarrow> string option \<Rightarrow> response + claims" where
  "authenticate e now h =
     (case bearer_token h of
        None \<Rightarrow> Inl (error_response 401 ''Access denied'')
      | Some t \<Rightarrow>
          if t = [] then Inl (error_response 401 ''Access denied'')
          else (case jwt_verify e now t of
                  Inl err \<Rightarrow> Inl (error_response 400 ''Invalid token'')
                | Inr c \<Rightarrow> Inr c))"

section \<open>The store\<close>

text \<open>
  The two tables of \<^verbatim>\<open>initializeDB\<close> (lines 34 to 52), each with its
  \<^verbatim>\<open>AUTO_INCREMENT\<close> counter. Rows are kept in the order of their insertion, which is
  the order of the primary key. The counters are natural numbers: the upper end of the
  \<^verbatim>\<open>INT\<close> range is not modelled. \<open>outage\<close> is the state of the connection: when it
  is \<open>Some msg\<close>, every \<^verbatim>\<open>pool.query\<close> rejects with an \<^verbatim>\<open>Error\<close> whose message is
  \<open>msg\<close>. A query's result is \<open>Inl msg\<close> for such a rejection.
\<close>

record employee =
  emp_id :: nat
  emp_name :: string
  emp_position :: string

record user =
  user_id :: nat
  user_email :: string
  user_password :: string

record db =
  employees :: "employee list"
  employees_next :: nat
  users :: "user list"
  users_next :: nat
  outage :: "string option"

text \<open>
  Storing a string into a \<^verbatim>\<open>VARCHAR(255)\<close> column \<open>col\<close>: a longer value is refused
  in strict mode (error 1406) and cut to 255 characters otherwise.
\<close>

definition varchar255 :: "bool \<Rightarrow> string \<Rightarrow> string \<Rightarrow> string + string" where
  "varchar255 strict col s =
     (if length s \<le> 255 then Inr s
      else if strict then
        Inl (''Data too long for column '' @ [CHR 0x27] @ col @ [CHR 0x27] @ '' at row 1'')
      else Inr (take 255 s))"

text \<open>\<^verbatim>\<open>INSERT INTO employees (name, position) VALUES (?, ?)\<close>; the result is \<^verbatim>\<open>insertId\<close>.\<close>

definition q_insert_employee :: "env \<Rightarrow> db \<Rightarrow> string \<Rightarrow> string \<Rightarrow> string + (nat \<times> db)" where
  "q_insert_employee e d nm p =
     (case outage d of
        Some msg \<Rightarrow> Inl msg
      | None \<Rightarrow>
          (case varchar255 (sql_strict e) ''name'' nm of
             Inl msg \<Rightarrow> Inl msg
           | Inr nm' \<Rightarrow>
               (case varchar255 (sql_strict e) ''position'' p of
                  Inl msg \<Rightarrow> Inl msg
                | Inr p' \<Rightarrow>
                    Inr (employees_next d,
                         d\<lparr>employees := employees d @
                              [\<lparr>emp_id = employees_next d, emp_name = nm', emp_position = p'\<rparr>],
                           employees_next := Suc (employees_next d)\<rparr>))))"

text \<open>\<^verbatim>\<open>SELECT * FROM employees\<close>\<close>

definition q_select_employees :: "db \<Rightarrow> string + employee list" where
  "q_select_employees d =
     (case outage d of Some msg \<Rightarrow> Inl msg | None \<Rightarrow> Inr (employees d))"

text \<open>The rows a \<^verbatim>\<open>WHERE id = ?\<close> selects when \<^verbatim>\<open>?\<close> is bound to the string \<open>pid\<close>.\<close>

definition id_matches :: "env \<Rightarrow> string \<Rightarrow> employee \<Rightarrow> bool" where
  "id_matches e pid r = (sql_id_of e pid = Some (emp_id r))"

text \<open>
  In strict mode a statement that changes data is refused when a value in it is read by
  cutting (error 1292); a \<^verbatim>\<open>SELECT\<close> only warns.
\<close>

definition id_refused :: "env \<Rightarrow> string \<Rightarrow> string option" where
  "id_refused e pid =
     (if sql_strict e \<and> sql_id_cut e pid
      then Some (''Truncated incorrect DOUBLE value: '' @ [CHR 0x27] @ pid @ [CHR 0x27])
      else None)"

text \<open>\<^verbatim>\<open>SELECT * FROM employees WHERE id = ?\<close>\<close>

definition q_select_employee :: "env \<Rightarrow> db \<Rightarrow> string \<Rightarrow> string + employee list" where
  "q_select_employee e d pid =
     (case outage d of
        Some msg \<Rightarrow> Inl msg
      | None \<Rightarrow> Inr (filter (id_matches e pid) (employees d)))"

text \<open>
  \<^verbatim>\<open>UPDATE employees SET name = ?, position = ? WHERE id = ?\<close>; the result is
  \<^verbatim>\<open>affectedRows\<close>. The pool is created with mysql2's default connection flags, which
  include \<^verbatim>\<open>FOUND_ROWS\<close>: the count is of the rows the \<^verbatim>\<open>WHERE\<close> matched, whether or
  not the update changed them. The values are stored only when a row is written.
\<close>

definition q_update_employee ::
  "env \<Rightarrow> db \<Rightarrow> string \<Rightarrow> string \<Rightarrow> string \<Rightarrow> string + (nat \<times> db)" where
  "q_update_employee e d nm p pid =
     (case outage d of
        Some msg \<Rightarrow> Inl msg
      | None \<Rightarrow>
          (case id_refused e pid of
             Some msg \<Rightarrow> Inl msg
           | None \<Rightarrow>
               if filter (id_matches e pid) (employees d) = [] then Inr (0, d)
               else
                 (case varchar255 (sql_strict e) ''name'' nm of
                    Inl msg \<Rightarrow> Inl msg
                  | Inr nm' \<Rightarrow>
                      (case varchar255 (sql_strict e) ''position'' p of
                         Inl msg \<Rightarrow> Inl msg
                       | Inr p' \<Rightarrow>
                           Inr (length (filter (id_matches e pid) (employees d)),
                                d\<lparr>employees :=
                                    map (\<lambda>r. if id_matches e pid r
                                              then r\<lparr>emp_name := nm', emp_position := p'\<rparr>
                                              else r)
                                        (employees d)\<rparr>)))))"

text \<open>\<^verbatim>\<open>DELETE FROM employees WHERE id = ?\<close>; the result is \<^verbatim>\<open>affectedRows\<close>.\<close>

definition q_delete_employee :: "env \<Rightarrow> db \<Rightarrow> string \<Rightarrow> string + (nat \<times> db)" where
  "q_delete_employee e d pid =
     (case outage d of
        Some msg \<Rightarrow> Inl msg
      | None \<Rightarrow>
          (case id_refused e pid of
             Some msg \<Rightarrow> Inl msg
           | None \<Rightarrow>
               Inr (length (filter (id_matches e pid) (employees d)),
                    d\<lparr>employees := filter (\<lambda>r. \<not> id_matches e pid r) (employees d)\<rparr>)))"

text \<open>
  \<^verbatim>\<open>SELECT * FROM users WHERE email = ?\<close>. Emails are compared as they are stored
  (a binary collation).
\<close>

definition q_select_user :: "db \<Rightarrow> string \<Rightarrow> string + user list" where
  "q_select_user d email =
     (case outage d of
        Some msg \<Rightarrow> Inl msg
      | None \<Rightarrow> Inr (filter (\<lambda>u. user_email u = email) (users d)))"

text \<open>
  \<^verbatim>\<open>INSERT INTO users (email, password) VALUES (?, ?)\<close>. The column \<^verbatim>\<open>email\<close> is
  \<^verbatim>\<open>UNIQUE\<close>: inserting an email that a row already holds is refused (error 1062).
\<close>

definition q_insert_user :: "env \<Rightarrow> db \<Rightarrow> string \<Rightarrow> string \<Rightarrow> string + db" where
  "q_insert_user e d email pw =
     (case outage d of
        Some msg \<Rightarrow> Inl msg
      | None \<Rightarrow>
          (case varchar255 (sql_strict e) ''email'' email of
             Inl msg \<Rightarrow> Inl msg
           | Inr email' \<Rightarrow>
               (case varchar255 (sql_strict e) ''password'' pw of
                  Inl msg \<Rightarrow> Inl msg
                | Inr pw' \<Rightarrow>
                    if filter (\<lambda>u. user_email u = email') (users d) \<noteq> [] then
                      Inl (''Duplicate entry '' @ [CHR 0x27] @ email' @ [CHR 0x27] @
                           '' for key '' @ [CHR 0x27] @ ''users.email'' @ [CHR 0x27])
                    else
                      Inr (d\<lparr>users := users d @
                               [\<lparr>user_id = users_next d, user_email = email',
                                 user_password = pw'\<rparr>],
                             users_next := Suc (users_next d)\<rparr>))))"

section \<open>The route handlers\<close>

text \<open>
  Each handler is the body of its \<^verbatim>\<open>try\<close> with the \<^verbatim>\<open>catch\<close> as the \<open>Inl\<close>
  branches: a thrown \<^verbatim>\<open>ZodError\<close> is the \<open>Inl\<close> of the schema, a rejected query
  the \<open>Inl\<close> of the query. A handler that writes returns the store with its response.
\<close>

definition employee_json :: "employee \<Rightarrow> json" where
  "employee_json r =
     JObj [(''id'', JNum (int (emp_id r))),
           (''name'', JStr (emp_name r)),
           (''position'', JStr (emp_position r))]"

text \<open>Lines 94 to 137: \<^verbatim>\<open>POST /login\<close>.\<close>

definition post_login :: "env \<Rightarrow> db \<Rightarrow> nat \<Rightarrow> json \<Rightarrow> response" where
  "post_login e d now b =
     (case loginSchema (email_ok e) b of
        Inl is \<Rightarrow> validation_response ''Validation error'' is
      | Inr (email, password) \<Rightarrow>
          (case q_select_user d email of
             Inl msg \<Rightarrow> error_response 500 ''Login failed''
           | Inr rows \<Rightarrow>
               (case rows of
                  [] \<Rightarrow> error_response 401 ''Invalid credentials''
                | u # _ \<Rightarrow>
                    if \<not> bcrypt_compare e password (user_password u)
                    then error_response 401 ''Invalid credentials''
                    else \<lparr>status = 200,
                          body = JObj [(''token'', JStr (jwt_sign e now (user_id u)))]\<rparr>)))"

text \<open>
  Lines 141 to 166: \<^verbatim>\<open>POST /register\<close>. The handler awaits the \<^verbatim>\<open>SELECT\<close> and then
  the \<^verbatim>\<open>INSERT\<close>; another request may run between the two. \<open>register_check\<close> is
  the handler up to the existence check (\<open>Inl\<close>: it has answered; \<open>Inr\<close>: it goes on
  with the email and the hash), \<open>register_insert\<close> the rest, run on the store as it is
  by then. The one \<^verbatim>\<open>catch\<close> of the handler answers every error alike.
\<close>

definition register_check :: "env \<Rightarrow> db \<Rightarrow> json \<Rightarrow> response + (string \<times> string)" where
  "register_check e d b =
     (case userSchema (email_ok e) b of
        Inl is \<Rightarrow> Inl (error_response 500 ''Registration failed'')
      | Inr (email, password) \<Rightarrow>
          (let hashedPassword = bcrypt_hash e password in
           case q_select_user d email of
             Inl msg \<Rightarrow> Inl (error_response 500 ''Registration failed'')
           | Inr existing \<Rightarrow>
               if length existing > 0 then Inl (error_response 409 ''Email already exists'')
               else Inr (email, hashedPassword)))"

definition register_insert :: "env \<Rightarrow> db \<Rightarrow> string \<times> string \<Rightarrow> db \<times> response" where
  "register_insert e d eh =
     (case q_insert_user e d (fst eh) (snd eh) of
        Inl msg \<Rightarrow> (d, error_response 500 ''Registration failed'')
      | Inr d' \<Rightarrow>
          (d', \<lparr>status = 201,
                body = JObj [(''message'', JStr ''User registered successfully'')]\<rparr>))"

text \<open>The handler when no other request runs between its two queries.\<close>

definition post_register :: "env \<Rightarrow> db \<Rightarrow> json \<Rightarrow> db \<times> response" where
  "post_register e d b =
     (case register_check e d b of
        Inl r \<Rightarrow> (d, r)
      | Inr eh \<Rightarrow> register_insert e d eh)"

text \<open>Lines 170 to 194: the handler of \<^verbatim>\<open>POST /employees\<close>, after \<^verbatim>\<open>authenticate\<close>.\<close>

definition post_employees :: "env \<Rightarrow> db \<Rightarrow> json \<Rightarrow> db \<times> response" where
  "post_employees e d b =
     (case employeeSchema b of
        Inl is \<Rightarrow> (d, validation_response ''Validation failed'' is)
      | Inr (nm, p) \<Rightarrow>
          (case q_insert_employee e d nm p of
             Inl msg \<Rightarrow> (d, error_response 400 msg)
           | Inr (insertId, d') \<Rightarrow>
               (d', \<lparr>status = 201,
                     body = JObj [(''id'', JNum (int insertId)),
                                  (''name'', JStr nm), (''position'', JStr p)]\<rparr>)))"

text \<open>Lines 197 to 205: \<^verbatim>\<open>GET /employees\<close>.\<close>

definition get_employees :: "db \<Rightarrow> response" where
  "get_employees d =
     (case q_select_employees d of
        Inl msg \<Rightarrow> error_response 500 msg
      | Inr rows \<Rightarrow> \<lparr>status = 200, body = JArr (map employee_json rows)\<rparr>)"

text \<open>Lines 208 to 224: \<^verbatim>\<open>GET /employees/:id\<close>.\<close>

definition get_employee :: "env \<Rightarrow> db \<Rightarrow> string \<Rightarrow> response" where
  "get_employee e d pid =
     (case q_select_employee e d pid of
        Inl msg \<Rightarrow> error_response 500 msg
      | Inr rows \<Rightarrow>
          (case rows of
             [] \<Rightarrow> error_response 404 ''Employee not found''
           | r # _ \<Rightarrow> \<lparr>status = 200, body = employee_json r\<rparr>))"

text \<open>Lines 227 to 254: the handler of \<^verbatim>\<open>PUT /employees/:id\<close>, after \<^verbatim>\<open>authenticate\<close>.\<close>

definition put_employee :: "env \<Rightarrow> db \<Rightarrow> string \<Rightarrow> json \<Rightarrow> db \<times> response" where
  "put_employee e d pid b =
     (case employeeSchema b of
        Inl is \<Rightarrow> (d, validation_response ''Validation failed'' is)
      | Inr (nm, p) \<Rightarrow>
          (case q_update_employee e d nm p pid of
             Inl msg \<Rightarrow> (d, error_response 400 msg)
           | Inr (affectedRows, d') \<Rightarrow>
               if affectedRows = 0 then (d', error_response 404 ''Employee not found'')
               else (d', \<lparr>status = 200,
                          body = JObj [(''id'', JStr pid),
                                       (''name'', JStr nm), (''position'', JStr p)]\<rparr>)))"

text \<open>Lines 257 to 273: the handler of \<^verbatim>\<open>DELETE /employees/:id\<close>, after \<^verbatim>\<open>authenticate\<close>.\<close>

definition delete_employee :: "env \<Rightarrow> db \<Rightarrow> string \<Rightarrow> db \<times> response" where
  "delete_employee e d pid =
     (case q_delete_employee e d pid of
        Inl msg \<Rightarrow> (d, error_response 500 msg)
      | Inr (affectedRows, d') \<Rightarrow>
          if affectedRows = 0 then (d', error_response 404 ''Employee not found'')
          else (d', \<lparr>status = 200,
                     body = JObj [(''message'', JStr ''Employee deleted successfully'')]\<rparr>))"

section \<open>The protected routes\<close>

text \<open>
  What a route reads of a request: the \<^verbatim>\<open>Authorization\<close> header, the path parameter
  \<^verbatim>\<open>:id\<close>, the parsed body, and the time the request is handled at (in seconds).
  A protected route runs \<^verbatim>\<open>authenticate\<close> and, when that calls \<^verbatim>\<open>next()\<close>, its
  handler. The middleware registered for every path (body parser, rate limiter, logger,
  CORS) comes from libraries and runs before any route; it is not part of the model, which
  starts where a request reaches its route.
\<close>

record request =
  req_authorization :: "string option"
  req_id :: string
  req_body :: json
  req_time :: nat

definition post_employees_route :: "env \<Rightarrow> db \<Rightarrow> request \<Rightarrow> db \<times> response" where
  "post_employees_route e d rq =
     (case authenticate e (req_time rq) (req_authorization rq) of
        Inl r \<Rightarrow> (d, r)
      | Inr c \<Rightarrow> post_employees e d (req_body rq))"

definition put_employee_route :: "env \<Rightarrow> db \<Rightarrow> request \<Rightarrow> db \<times> response" where
  "put_employee_route e d rq =
     (case authenticate e (req_time rq) (req_authorization rq) of
        Inl r \<Rightarrow> (d, r)
      | Inr c \<Rightarrow> put_employee e d (req_id rq) (req_body rq))"

definition delete_employee_route :: "env \<Rightarrow> db \<Rightarrow> request \<Rightarrow> db \<times> response" where
  "delete_employee_route e d rq =
     (case authenticate e (req_time rq) (req_authorization rq) of
        Inl r \<Rightarrow> (d, r)
      | Inr c \<Rightarrow> delete_employee e d (req_id rq))"

section \<open>Invariant of the store\<close>

text \<open>
  \<^verbatim>\<open>AUTO_INCREMENT\<close> hands out identifiers that no row holds: every row's identifier
  is below the counter.
\<close>

definition store_ok :: "db \<Rightarrow> bool" where
  "store_ok d = list_all (\<lambda>r. emp_id r < employees_next d) (employees d)"

text \<open>The store once \<^verbatim>\<open>initializeDB\<close> has created the two tables in an empty database.\<close>

definition initial_db :: db where
  "initial_db =
     \<lparr>employees = [], employees_next = 1, users = [], users_next = 1, outage = None\<rparr>"

section \<open>A concrete configuration\<close>

text \<open>
  Concrete values for the parameters, to run the handlers on: decimal numerals (a path
  parameter is read as a number when it is one, and counts as cut otherwise), a token
  written \<^verbatim>\<open>userId.iat.exp.signature\<close>, an email test that looks for \<^verbatim>\<open>@\<close>, and
  stand-ins for the hash and the signature.
\<close>

function show_nat :: "nat \<Rightarrow> string" where
  "show_nat n =
     (if n < 10 then [''0123456789'' ! n]
      else show_nat (n div 10) @ [''0123456789'' ! (n mod 10)])"
  by pat_completeness auto
termination
  by (relation "measure (\<lambda>n. n)") auto

definition is_digit :: "char \<Rightarrow> bool" where
  "is_digit c = (c \<in> set ''0123456789'')"

definition read_nat :: "string \<Rightarrow> nat option" where
  "read_nat s =
     (if s = [] then None
      else if list_all is_digit s
      then Some (foldl (\<lambda>a c. 10 * a + (of_char c - 48)) 0 s)
      else None)"

definition demo_mac :: "claims \<Rightarrow> string" where
  "demo_mac c = ''sig'' @ show_nat (claim_userId c + claim_exp c)"

definition demo_encode :: "claims \<times> string \<Rightarrow> string" where
  "demo_encode x =
     show_nat (claim_userId (fst x)) @ ''.'' @ show_nat (claim_iat (fst x)) @ ''.'' @
     show_nat (claim_exp (fst x)) @ ''.'' @ snd x"

definition demo_decode :: "string \<Rightarrow> (claims \<times> string) option" where
  "demo_decode tok =
     (case js_split (CHR ''.'') tok of
        [a, b, c, sg] \<Rightarrow>
          (case read_nat a of
             None \<Rightarrow> None
           | Some u \<Rightarrow>
               (case read_nat b of
                  None \<Rightarrow> None
                | Some i \<Rightarrow>
                    (case read_nat c of
                       None \<Rightarrow> None
                     | Some x \<Rightarrow>
                         Some (\<lparr>claim_userId = u, claim_iat = i, claim_exp = x\<rparr>, sg))))
      | _ \<Rightarrow> None)"

definition demo_env :: env where
  "demo_env =
     \<lparr>email_ok = (\<lambda>s. CHR ''@'' \<in> set s),
      bcrypt_hash = (\<lambda>p. ''hash:'' @ p),
      bcrypt_compare = (\<lambda>p h. h = ''hash:'' @ p),
      jwt_mac = demo_mac,
      jwt_encode = demo_encode,
      jwt_decode = demo_decode,
      sql_strict = True,
      sql_id_of = read_nat,
      sql_id_cut = (\<lambda>s. read_nat s = None)\<rparr>"

text \<open>The same configuration with the server out of strict mode.\<close>

definition lax_env :: env where
  "lax_env = demo_env\<lparr>sql_strict := False\<rparr>"

text \<open>A store with one employee and one registered user.\<close>

definition demo_db :: db where
  "demo_db =
     \<lparr>employees = [\<lparr>emp_id = 1, emp_name = ''Jo'', emp_position = ''Eng''\<rparr>],
      employees_next = 2,
      users = [\<lparr>user_id = 1, user_email = ''a@b.com'', user_password = ''hash:secret1''\<rparr>],
      users_next = 2,
      outage = None\<rparr>"

text \<open>The same store while the database cannot be reached.\<close>

definition down_db :: db where
  "down_db = demo_db\<lparr>outage := Some ''connect ECONNREFUSED 127.0.0.1:3306''\<rparr>"

text \<open>A token that \<open>demo_env\<close> issued at time 1000 for user 1, in its header.\<close>

definition demo_header :: "string option" where
  "demo_header = Some ''Bearer 1.1000.4600.sig4601''"

section \<open>Facts about the schemas, the store and the concrete configuration\<close>

lemma varchar255_fits: "length s \<le> 255 \<Longrightarrow> varchar255 strict col s = Inr s"
  by (simp add: varchar255_def)

lemma string_min_Inr:
  "string_min n msg pth v = Inr s \<longleftrightarrow> v = JStr s \<and> n \<le> length s"
  by (cases v) (auto simp: string_min_def)

lemma string_min_issue_path:
  "string_min n msg pth v = Inl is \<Longrightarrow> \<exists>i. is = [i] \<and> issue_path i = pth"
  by (cases v) (auto simp: string_min_def split: if_splits)

lemma employeeSchema_Inr:
  "employeeSchema b = Inr (nm, p) \<longleftrightarrow>
     (\<exists>kvs. b = JObj kvs \<and> field kvs ''name'' = JStr nm \<and> field kvs ''position'' = JStr p
        \<and> 2 \<le> length nm \<and> 2 \<le> length p)"
  by (cases b)
     (auto simp: employeeSchema_def zod_object_def Let_def string_min_def
           split: sum.splits json.splits if_splits)

lemma employeeSchema_Inl_object:
  "employeeSchema (JObj kvs) = Inl is \<Longrightarrow>
     is = issues_of (string_min 2 ''Name must be at least 2 characters'' [''name'']
                       (field kvs ''name''))
        @ issues_of (string_min 2 ''Position cannot be empty'' [''position'']
                       (field kvs ''position''))"
  by (auto simp: employeeSchema_def zod_object_def Let_def split: sum.splits)

lemma filter_find_None: "filter P xs = [] \<longleftrightarrow> find P xs = None"
  by (induction xs) auto

lemma find_Some_filter: "find P xs = Some u \<Longrightarrow> \<exists>us. filter P xs = u # us"
  by (induction xs) (auto split: if_splits)

lemma fresh_id_no_row:
  "store_ok d \<Longrightarrow> filter (\<lambda>r. emp_id r = employees_next d) (employees d) = []"
  unfolding store_ok_def by (auto simp: list_all_iff filter_empty_conv)

lemma authenticate_Inl_status:
  "authenticate e now h = Inl r \<Longrightarrow> status r = 401 \<or> status r = 400"
  by (auto simp: authenticate_def error_response_def split: option.splits if_splits sum.splits)

lemma demo_verify_forged:
  "jwt_verify demo_env 2000 ''1.1000.4600.forged'' = Inl JsonWebTokenError"
  by (simp add: jwt_verify_def demo_env_def demo_decode_def demo_mac_def read_nat_def
        is_digit_def)

lemma demo_verify_expired:
  "jwt_verify demo_env 5000 ''1.1000.4600.sig4601'' = Inl TokenExpiredError"
  by (simp add: jwt_verify_def demo_env_def demo_decode_def demo_mac_def read_nat_def
        is_digit_def)

lemma demo_verify_valid:
  "jwt_verify demo_env 2000 ''1.1000.4600.sig4601''
     = Inr \<lparr>claim_userId = 1, claim_iat = 1000, claim_exp = 4600\<rparr>"
  by (simp add: jwt_verify_def demo_env_def demo_decode_def demo_mac_def read_nat_def
        is_digit_def)

lemma demo_authenticate:
  "authenticate demo_env 2000 demo_header
     = Inr \<lparr>claim_userId = 1, claim_iat = 1000, claim_exp = 4600\<rparr>"
  by (simp add: authenticate_def bearer_token_def demo_header_def demo_verify_valid)

lemma demo_authenticate_lax:
  "authenticate lax_env 2000 demo_header
     = Inr \<lparr>claim_userId = 1, claim_iat = 1000, claim_exp = 4600\<rparr>"
  by (simp add: authenticate_def bearer_token_def demo_header_def jwt_verify_def lax_env_def
        demo_env_def demo_decode_def demo_mac_def read_nat_def is_digit_def)

lemma store_ok_initial: "store_ok initial_db"
  by (simp add: store_ok_def initial_db_def)

lemma store_ok_post_employees:
  "store_ok d \<Longrightarrow> store_ok (fst (post_employees e d b))"
  by (auto simp: store_ok_def post_employees_def q_insert_employee_def list_all_iff
           split: sum.splits option.splits prod.splits)

lemma store_ok_put_employee:
  "store_ok d \<Longrightarrow> store_ok (fst (put_employee e d pid b))"
  by (auto simp: store_ok_def put_employee_def q_update_employee_def list_all_iff
           split: sum.splits option.splits prod.splits if_splits)

lemma store_ok_delete_employee:
  "store_ok d \<Longrightarrow> store_ok (fst (delete_employee e d pid))"
  by (auto simp: store_ok_def delete_employee_def q_delete_employee_def list_all_iff
           split: sum.splits option.splits prod.splits if_splits)

lemma store_ok_post_register:
  "store_ok d \<Longrightarrow> store_ok (fst (post_register e d b))"
  by (auto simp: store_ok_def post_register_def register_insert_def q_insert_user_def
           split: sum.splits option.splits if_splits)

lemma string_min_violated:
  "(\<forall>s. v = JStr s \<longrightarrow> length s < n) \<Longrightarrow>
     \<exists>i. string_min n msg pth v = Inl [i] \<and> issue_path i = pth"
  by (cases v) (auto simp: string_min_def)

lemma employeeSchema_not_object:
  "(\<forall>kvs. b \<noteq> JObj kvs) \<Longrightarrow>
     employeeSchema b = Inl [InvalidType [] ZObject (getParsedType b)]"
  by (cases b) (auto simp: employeeSchema_def zod_object_def)

lemma show_nat_1: "show_nat 1 = ''1''" by code_simp

lemma show_nat_1000: "show_nat 1000 = ''1000''" by code_simp

lemma show_nat_4600: "show_nat 4600 = ''4600''" by code_simp

lemma show_nat_4601: "show_nat 4601 = ''4601''" by code_simp

lemma demo_sign: "jwt_sign demo_env 1000 1 = ''1.1000.4600.sig4601''"
  by (simp add: jwt_sign_def demo_env_def demo_encode_def demo_mac_def
        show_nat_1 show_nat_1000 show_nat_4600 show_nat_4601)

lemma demo_decode_issued:
  "demo_decode ''1.1000.4600.sig4601''
     = Some (\<lparr>claim_userId = 1, claim_iat = 1000, claim_exp = 4600\<rparr>, ''sig4601'')"
  by (simp add: demo_decode_def read_nat_def is_digit_def)

section \<open>Registration with a body that fails validation\<close>

text \<open>
  Claim C1 says that \<^verbatim>\<open>POST /register\<close> answers a body that fails the credential schema
  with 400 and a validation error body. The handler's only \<^verbatim>\<open>catch\<close> (lines 162 to
  165) does not look for a \<^verbatim>\<open>ZodError\<close>, as the one of \<^verbatim>\<open>POST /login\<close> does (lines
  128 to 133): a five-character password is answered with 500 and the body
  \<^verbatim>\<open>{ error: "Registration failed" }\<close>, whatever the email test is.
\<close>

theorem register_invalid_body_is_500:
  "post_register demo_env demo_db
     (JObj [(''email'', JStr ''a@b.com''), (''password'', JStr ''12345'')])
   = (demo_db, \<lparr>status = 500, body = JObj [(''error'', JStr ''Registration failed'')]\<rparr>)"
  by (simp add: post_register_def register_check_def userSchema_def zod_object_def field_def
        string_email_def string_min_def demo_env_def error_response_def)

text \<open>The same for every configuration, store and refused body.\<close>

lemma register_refused_body_is_500:
  "userSchema (email_ok e) b = Inl is \<Longrightarrow>
     post_register e d b
       = (d, \<lparr>status = 500, body = JObj [(''error'', JStr ''Registration failed'')]\<rparr>)"
  by (simp add: post_register_def register_check_def error_response_def)

section \<open>A token that fails verification\<close>

text \<open>
  Claim C2, as amended: on every protected route, a request that carries a token which
  fails verification, for whichever reason (\<^verbatim>\<open>JsonWebTokenError\<close> for a malformed or
  tampered token, \<^verbatim>\<open>TokenExpiredError\<close> for a lapsed one), is answered by
  \<^verbatim>\<open>authenticate\<close> with status 400 and the body \<^verbatim>\<open>{ error: "Invalid token" }\<close>, and the
  store is left as it was. The reason of the failure does not reach the response.
\<close>

theorem failed_verification_is_400:
  assumes tok: "bearer_token (req_authorization rq) = Some t"
      and nonempty: "t \<noteq> []"
      and fails: "jwt_verify e (req_time rq) t = Inl err"
  shows "authenticate e (req_time rq) (req_authorization rq)
           = Inl \<lparr>status = 400, body = JObj [(''error'', JStr ''Invalid token'')]\<rparr>
       \<and> post_employees_route e d rq
           = (d, \<lparr>status = 400, body = JObj [(''error'', JStr ''Invalid token'')]\<rparr>)
       \<and> put_employee_route e d rq
           = (d, \<lparr>status = 400, body = JObj [(''error'', JStr ''Invalid token'')]\<rparr>)
       \<and> delete_employee_route e d rq
           = (d, \<lparr>status = 400, body = JObj [(''error'', JStr ''Invalid token'')]\<rparr>)"
proof -
  have a: "authenticate e (req_time rq) (req_authorization rq)
             = Inl \<lparr>status = 400, body = JObj [(''error'', JStr ''Invalid token'')]\<rparr>"
    using tok nonempty fails by (simp add: authenticate_def error_response_def)
  then show ?thesis
    by (simp add: post_employees_route_def put_employee_route_def delete_employee_route_def)
qed

text \<open>
  The theorem at a token whose signature was replaced and at a token read 400 seconds
  after its expiry: the verifier tells the two apart, the responses are the same.
\<close>

theorem failed_verification_is_400_witness:
  "bearer_token (Some ''Bearer 1.1000.4600.forged'') = Some ''1.1000.4600.forged''
   \<and> jwt_verify demo_env 2000 ''1.1000.4600.forged'' = Inl JsonWebTokenError
   \<and> put_employee_route demo_env demo_db
        \<lparr>req_authorization = Some ''Bearer 1.1000.4600.forged'', req_id = ''1'',
         req_body = JNull, req_time = 2000\<rparr>
      = (demo_db, \<lparr>status = 400, body = JObj [(''error'', JStr ''Invalid token'')]\<rparr>)
   \<and> bearer_token demo_header = Some ''1.1000.4600.sig4601''
   \<and> jwt_verify demo_env 5000 ''1.1000.4600.sig4601'' = Inl TokenExpiredError
   \<and> put_employee_route demo_env demo_db
        \<lparr>req_authorization = demo_header, req_id = ''1'',
         req_body = JNull, req_time = 5000\<rparr>
      = (demo_db, \<lparr>status = 400, body = JObj [(''error'', JStr ''Invalid token'')]\<rparr>)"
proof -
  let ?forged = "\<lparr>req_authorization = Some ''Bearer 1.1000.4600.forged'', req_id = ''1'',
                  req_body = JNull, req_time = 2000\<rparr>"
  let ?expired = "\<lparr>req_authorization = demo_header, req_id = ''1'',
                   req_body = JNull, req_time = 5000\<rparr>"
  have t1: "bearer_token (req_authorization ?forged) = Some ''1.1000.4600.forged''"
    by (simp add: bearer_token_def)
  have n1: "''1.1000.4600.forged'' \<noteq> []" by simp
  have v1: "jwt_verify demo_env (req_time ?forged) ''1.1000.4600.forged'' = Inl JsonWebTokenError"
    by (simp add: demo_verify_forged)
  have t2: "bearer_token (req_authorization ?expired) = Some ''1.1000.4600.sig4601''"
    by (simp add: bearer_token_def demo_header_def)
  have n2: "''1.1000.4600.sig4601'' \<noteq> []" by simp
  have v2: "jwt_verify demo_env (req_time ?expired) ''1.1000.4600.sig4601'' = Inl TokenExpiredError"
    by (simp add: demo_verify_expired)
  show ?thesis
    using failed_verification_is_400 [OF t1 n1 v1, of demo_db]
          failed_verification_is_400 [OF t2 n2 v2, of demo_db] t1 t2 v1 v2
    by simp
qed

text \<open>
  Claim C2 as the spec states it, with status 401, fails at both requests: the status is
  400. Status 401 is what \<^verbatim>\<open>authenticate\<close> sends when no token is present (line 58).
\<close>

theorem invalid_token_status_not_401:
  "status (snd (put_employee_route demo_env demo_db
       \<lparr>req_authorization = Some ''Bearer 1.1000.4600.forged'', req_id = ''1'',
        req_body = JNull, req_time = 2000\<rparr>)) = 400
   \<and> status (snd (put_employee_route demo_env demo_db
       \<lparr>req_authorization = Some ''Bearer 1.1000.4600.forged'', req_id = ''1'',
        req_body = JNull, req_time = 2000\<rparr>)) \<noteq> 401
   \<and> status (snd (put_employee_route demo_env demo_db
       \<lparr>req_authorization = demo_header, req_id = ''1'',
        req_body = JNull, req_time = 5000\<rparr>)) = 400
   \<and> status (snd (put_employee_route demo_env demo_db
       \<lparr>req_authorization = demo_header, req_id = ''1'',
        req_body = JNull, req_time = 5000\<rparr>)) \<noteq> 401"
  by (simp add: put_employee_route_def authenticate_def bearer_token_def demo_header_def
        demo_verify_forged demo_verify_expired error_response_def)

section \<open>Replacing an employee\<close>

text \<open>
  What \<^verbatim>\<open>PUT /employees/:id\<close> does once the request has passed \<^verbatim>\<open>authenticate\<close> and
  the schema, on an available store, with a path parameter that is read as a number
  without cutting and values that fit the columns.
\<close>

lemma put_employee_reaching_update:
  assumes auth: "authenticate e (req_time rq) (req_authorization rq) = Inr c"
      and valid: "employeeSchema (req_body rq) = Inr (nm, p)"
      and up: "outage d = None"
      and clean: "\<not> sql_id_cut e (req_id rq)"
      and fits: "length nm \<le> 255 \<and> length p \<le> 255"
  shows "((\<exists>r \<in> set (employees d). id_matches e (req_id rq) r) \<longrightarrow>
            put_employee_route e d rq
              = (d\<lparr>employees :=
                     map (\<lambda>r. if id_matches e (req_id rq) r
                               then r\<lparr>emp_name := nm, emp_position := p\<rparr> else r)
                         (employees d)\<rparr>,
                 \<lparr>status = 200,
                  body = JObj [(''id'', JStr (req_id rq)),
                               (''name'', JStr nm), (''position'', JStr p)]\<rparr>))
       \<and> ((\<exists>r \<in> set (employees d). id_matches e (req_id rq) r) \<and>
           (\<forall>r \<in> set (employees d). id_matches e (req_id rq) r \<longrightarrow>
                emp_name r = nm \<and> emp_position r = p) \<longrightarrow>
            put_employee_route e d rq
              = (d, \<lparr>status = 200,
                     body = JObj [(''id'', JStr (req_id rq)),
                                  (''name'', JStr nm), (''position'', JStr p)]\<rparr>))
       \<and> (status (snd (put_employee_route e d rq)) = 404 \<longleftrightarrow>
            \<not> (\<exists>r \<in> set (employees d). id_matches e (req_id rq) r))"
proof -
  let ?m = "filter (id_matches e (req_id rq)) (employees d)"
  let ?upd = "map (\<lambda>r. if id_matches e (req_id rq) r
                        then r\<lparr>emp_name := nm, emp_position := p\<rparr> else r) (employees d)"
  let ?ok = "\<lparr>status = 200,
              body = JObj [(''id'', JStr (req_id rq)),
                           (''name'', JStr nm), (''position'', JStr p)]\<rparr>"
  have route: "put_employee_route e d rq = put_employee e d (req_id rq) (req_body rq)"
    using auth by (simp add: put_employee_route_def)
  have accepted: "id_refused e (req_id rq) = None"
    using clean by (simp add: id_refused_def)
  have present: "put_employee e d (req_id rq) (req_body rq) = (d\<lparr>employees := ?upd\<rparr>, ?ok)"
    if "\<exists>r \<in> set (employees d). id_matches e (req_id rq) r"
  proof -
    from that have ne: "?m \<noteq> []" by (auto simp: filter_empty_conv)
    then have "length ?m \<noteq> 0" by simp
    with ne show ?thesis
      using valid up fits accepted
      by (simp add: put_employee_def q_update_employee_def varchar255_fits)
  qed
  have absent: "put_employee e d (req_id rq) (req_body rq)
                  = (d, error_response 404 ''Employee not found'')"
    if "\<not> (\<exists>r \<in> set (employees d). id_matches e (req_id rq) r)"
  proof -
    from that have "?m = []" by (auto simp: filter_empty_conv)
    then show ?thesis
      using valid up accepted by (simp add: put_employee_def q_update_employee_def)
  qed
  have same: "?upd = employees d"
    if "\<forall>r \<in> set (employees d). id_matches e (req_id rq) r \<longrightarrow>
          emp_name r = nm \<and> emp_position r = p"
    using that by (induction "employees d") (auto simp: map_idI)
  have nf: "status (snd (put_employee_route e d rq)) = 404 \<longleftrightarrow>
              \<not> (\<exists>r \<in> set (employees d). id_matches e (req_id rq) r)"
  proof (cases "\<exists>r \<in> set (employees d). id_matches e (req_id rq) r")
    case True
    then show ?thesis using route present by simp
  next
    case False
    then show ?thesis using route absent by (simp add: error_response_def)
  qed
  show ?thesis
  proof (intro conjI impI)
    assume "\<exists>r \<in> set (employees d). id_matches e (req_id rq) r"
    then show "put_employee_route e d rq = (d\<lparr>employees := ?upd\<rparr>, ?ok)"
      using route present by simp
  next
    assume a: "(\<exists>r \<in> set (employees d). id_matches e (req_id rq) r) \<and>
               (\<forall>r \<in> set (employees d). id_matches e (req_id rq) r \<longrightarrow>
                  emp_name r = nm \<and> emp_position r = p)"
    then have "put_employee_route e d rq = (d\<lparr>employees := ?upd\<rparr>, ?ok)"
      using route present by simp
    moreover have "?upd = employees d" using a same by simp
    ultimately show "put_employee_route e d rq = (d, ?ok)" by simp
  next
    show "status (snd (put_employee_route e d rq)) = 404 \<longleftrightarrow>
            \<not> (\<exists>r \<in> set (employees d). id_matches e (req_id rq) r)"
      by (rule nf)
  qed
qed

text \<open>The answer 404 is sent only from line 236, after an \<^verbatim>\<open>UPDATE\<close> that matched no row.\<close>

lemma put_employee_route_404_without_row:
  assumes nf: "status (snd (put_employee_route e d rq)) = 404"
  shows "\<not> (\<exists>r \<in> set (employees d). id_matches e (req_id rq) r)"
proof (cases "authenticate e (req_time rq) (req_authorization rq)")
  case (Inl x)
  with nf authenticate_Inl_status [OF Inl] show ?thesis
    by (simp add: put_employee_route_def)
next
  case (Inr c)
  show ?thesis
  proof
    assume "\<exists>r \<in> set (employees d). id_matches e (req_id rq) r"
    then have ne: "filter (id_matches e (req_id rq)) (employees d) \<noteq> []"
      by (auto simp: filter_empty_conv)
    then have "length (filter (id_matches e (req_id rq)) (employees d)) \<noteq> 0" by simp
    with ne nf Inr show False
      by (auto simp: put_employee_route_def put_employee_def q_update_employee_def
            validation_response_def error_response_def
            split: sum.splits option.splits if_splits prod.splits)
  qed
qed

text \<open>
  Claim C3, as amended: for every employee id present in the store, given in the path in
  a form that MySQL reads as that number without cutting, and every validated name and
  position of at most 255 characters each, the replacement by an authenticated request on
  an available store succeeds with status 200 and returns the updated record, the rows
  with that id then holding the new values; it does so also when the new values are the
  stored ones, and the store is then what it was (the replacement is idempotent). The
  answer is 404 only when no row holds the id: this part holds for every request and
  every store.
\<close>

theorem replace_fitting_values:
  "(authenticate e (req_time rq) (req_authorization rq) = Inr c
      \<and> employeeSchema (req_body rq) = Inr (nm, p)
      \<and> outage d = None
      \<and> \<not> sql_id_cut e (req_id rq)
      \<and> (\<exists>r \<in> set (employees d). id_matches e (req_id rq) r)
      \<and> length nm \<le> 255 \<and> length p \<le> 255
    \<longrightarrow>
      put_employee_route e d rq
        = (d\<lparr>employees :=
               map (\<lambda>r. if id_matches e (req_id rq) r
                         then r\<lparr>emp_name := nm, emp_position := p\<rparr> else r)
                   (employees d)\<rparr>,
           \<lparr>status = 200,
            body = JObj [(''id'', JStr (req_id rq)),
                         (''name'', JStr nm), (''position'', JStr p)]\<rparr>)
      \<and> ((\<forall>r \<in> set (employees d). id_matches e (req_id rq) r \<longrightarrow>
              emp_name r = nm \<and> emp_position r = p) \<longrightarrow>
           put_employee_route e d rq
             = (d, \<lparr>status = 200,
                    body = JObj [(''id'', JStr (req_id rq)),
                                 (''name'', JStr nm), (''position'', JStr p)]\<rparr>)))
   \<and> (status (snd (put_employee_route e d rq)) = 404 \<longrightarrow>
        \<not> (\<exists>r \<in> set (employees d). id_matches e (req_id rq) r))"
proof (intro conjI impI)
  assume h: "authenticate e (req_time rq) (req_authorization rq) = Inr c
      \<and> employeeSchema (req_body rq) = Inr (nm, p)
      \<and> outage d = None
      \<and> \<not> sql_id_cut e (req_id rq)
      \<and> (\<exists>r \<in> set (employees d). id_matches e (req_id rq) r)
      \<and> length nm \<le> 255 \<and> length p \<le> 255"
  then have fits: "length nm \<le> 255 \<and> length p \<le> 255" by simp
  from h put_employee_reaching_update [of e rq c nm p d] fits
  show "put_employee_route e d rq
        = (d\<lparr>employees :=
               map (\<lambda>r. if id_matches e (req_id rq) r
                         then r\<lparr>emp_name := nm, emp_position := p\<rparr> else r)
                   (employees d)\<rparr>,
           \<lparr>status = 200,
            body = JObj [(''id'', JStr (req_id rq)),
                         (''name'', JStr nm), (''position'', JStr p)]\<rparr>)"
    by blast
  assume "\<forall>r \<in> set (employees d). id_matches e (req_id rq) r \<longrightarrow>
              emp_name r = nm \<and> emp_position r = p"
  with h put_employee_reaching_update [of e rq c nm p d] fits
  show "put_employee_route e d rq
             = (d, \<lparr>status = 200,
                    body = JObj [(''id'', JStr (req_id rq)),
                                 (''name'', JStr nm), (''position'', JStr p)]\<rparr>)"
    by blast
next
  assume "status (snd (put_employee_route e d rq)) = 404"
  then show "\<not> (\<exists>r \<in> set (employees d). id_matches e (req_id rq) r)"
    by (rule put_employee_route_404_without_row)
qed

text \<open>
  The theorem at the stored values of employee 1 (status 200, the store as it was) and at
  the id 2, which no row holds (status 404).
\<close>

theorem replace_fitting_values_witness:
  "authenticate demo_env 2000 demo_header
     = Inr \<lparr>claim_userId = 1, claim_iat = 1000, claim_exp = 4600\<rparr>
   \<and> employeeSchema (JObj [(''name'', JStr ''Jo''), (''position'', JStr ''Eng'')])
     = Inr (''Jo'', ''Eng'')
   \<and> outage demo_db = None
   \<and> \<not> sql_id_cut demo_env ''1''
   \<and> id_matches demo_env ''1'' \<lparr>emp_id = 1, emp_name = ''Jo'', emp_position = ''Eng''\<rparr>
   \<and> put_employee_route demo_env demo_db
        \<lparr>req_authorization = demo_header, req_id = ''1'',
         req_body = JObj [(''name'', JStr ''Jo''), (''position'', JStr ''Eng'')],
         req_time = 2000\<rparr>
      = (demo_db, \<lparr>status = 200,
                   body = JObj [(''id'', JStr ''1''),
                                (''name'', JStr ''Jo''), (''position'', JStr ''Eng'')]\<rparr>)
   \<and> status (snd (put_employee_route demo_env demo_db
        \<lparr>req_authorization = demo_header, req_id = ''2'',
         req_body = JObj [(''name'', JStr ''Jo''), (''position'', JStr ''Eng'')],
         req_time = 2000\<rparr>)) = 404
   \<and> \<not> (\<exists>r \<in> set (employees demo_db). id_matches demo_env ''2'' r)"
proof -
  let ?b = "JObj [(''name'', JStr ''Jo''), (''position'', JStr ''Eng'')]"
  let ?rq = "\<lparr>req_authorization = demo_header, req_id = ''1'', req_body = ?b,
              req_time = 2000\<rparr>"
  let ?rq2 = "\<lparr>req_authorization = demo_header, req_id = ''2'', req_body = ?b,
               req_time = 2000\<rparr>"
  let ?c = "\<lparr>claim_userId = 1, claim_iat = 1000, claim_exp = 4600\<rparr>"
  have auth: "authenticate demo_env (req_time ?rq) (req_authorization ?rq) = Inr ?c"
    by (simp add: demo_authenticate)
  have valid: "employeeSchema (req_body ?rq) = Inr (''Jo'', ''Eng'')"
    by (simp add: employeeSchema_Inr field_def)
  have up: "outage demo_db = None" by (simp add: demo_db_def)
  have clean: "\<not> sql_id_cut demo_env (req_id ?rq)"
    by (simp add: demo_env_def read_nat_def is_digit_def)
  have m: "id_matches demo_env ''1'' \<lparr>emp_id = 1, emp_name = ''Jo'', emp_position = ''Eng''\<rparr>"
    by (simp add: id_matches_def demo_env_def read_nat_def is_digit_def)
  have rows: "employees demo_db = [\<lparr>emp_id = 1, emp_name = ''Jo'', emp_position = ''Eng''\<rparr>]"
    by (simp add: demo_db_def)
  have present: "\<exists>r \<in> set (employees demo_db). id_matches demo_env (req_id ?rq) r"
    using m rows by simp
  have stored: "\<forall>r \<in> set (employees demo_db). id_matches demo_env (req_id ?rq) r \<longrightarrow>
                  emp_name r = ''Jo'' \<and> emp_position r = ''Eng''"
    using rows by simp
  have fits: "length ''Jo'' \<le> 255 \<and> length ''Eng'' \<le> 255" by simp
  have ok: "put_employee_route demo_env demo_db ?rq
              = (demo_db, \<lparr>status = 200,
                           body = JObj [(''id'', JStr (req_id ?rq)),
                                        (''name'', JStr ''Jo''), (''position'', JStr ''Eng'')]\<rparr>)"
    using replace_fitting_values [of demo_env ?rq ?c "''Jo''" "''Eng''" demo_db]
          auth valid up clean present stored fits
    by blast
  have route2: "put_employee_route demo_env demo_db ?rq2 = put_employee demo_env demo_db ''2'' ?b"
    by (simp add: put_employee_route_def demo_authenticate)
  have handler2: "put_employee demo_env demo_db ''2'' ?b
                    = (demo_db, error_response 404 ''Employee not found'')"
    by (simp add: put_employee_def employeeSchema_def zod_object_def field_def string_min_def
          q_update_employee_def id_refused_def id_matches_def demo_env_def demo_db_def
          read_nat_def is_digit_def)
  have nf: "status (snd (put_employee_route demo_env demo_db ?rq2)) = 404"
    by (simp only: route2 handler2) (simp add: error_response_def)
  have absent: "\<not> (\<exists>r \<in> set (employees demo_db). id_matches demo_env (req_id ?rq2) r)"
    using replace_fitting_values [of demo_env ?rq2 ?c "''Jo''" "''Eng''" demo_db] nf
    by blast
  show ?thesis
    using auth valid up clean m ok nf absent by simp
qed

text \<open>
  Claim C3 as the spec states it, for every name and position, fails at a name of 256
  characters, which the schema accepts and the column \<^verbatim>\<open>name VARCHAR(255)\<close> (line 39)
  does not hold: in strict mode the \<^verbatim>\<open>UPDATE\<close> is refused and the handler answers 400
  with the engine's message; out of strict mode the answer is 200 with the whole name
  while the row holds its first 255 characters.
\<close>

theorem replace_overlong_name:
  "put_employee_route demo_env demo_db
     \<lparr>req_authorization = demo_header, req_id = ''1'',
      req_body = JObj [(''name'', JStr (replicate 256 (CHR ''a''))), (''position'', JStr ''Eng'')],
      req_time = 2000\<rparr>
   = (demo_db, \<lparr>status = 400,
                body = JObj [(''error'', JStr (''Data too long for column '' @ [CHR 0x27] @
                               ''name'' @ [CHR 0x27] @ '' at row 1''))]\<rparr>)
   \<and> map emp_name (employees (fst (put_employee_route lax_env demo_db
        \<lparr>req_authorization = demo_header, req_id = ''1'',
         req_body = JObj [(''name'', JStr (replicate 256 (CHR ''a''))),
                          (''position'', JStr ''Eng'')],
         req_time = 2000\<rparr>))) = [replicate 255 (CHR ''a'')]
   \<and> body (snd (put_employee_route lax_env demo_db
        \<lparr>req_authorization = demo_header, req_id = ''1'',
         req_body = JObj [(''name'', JStr (replicate 256 (CHR ''a''))),
                          (''position'', JStr ''Eng'')],
         req_time = 2000\<rparr>))
      = JObj [(''id'', JStr ''1''), (''name'', JStr (replicate 256 (CHR ''a''))),
              (''position'', JStr ''Eng'')]"
proof -
  let ?b = "JObj [(''name'', JStr (replicate 256 (CHR ''a''))), (''position'', JStr ''Eng'')]"
  let ?rq = "\<lparr>req_authorization = demo_header, req_id = ''1'', req_body = ?b,
              req_time = 2000\<rparr>"
  have strict_route: "put_employee_route demo_env demo_db ?rq = put_employee demo_env demo_db ''1'' ?b"
    by (simp add: put_employee_route_def demo_authenticate)
  have lax_route: "put_employee_route lax_env demo_db ?rq = put_employee lax_env demo_db ''1'' ?b"
    by (simp add: put_employee_route_def demo_authenticate_lax)
  have strict_handler: "put_employee demo_env demo_db ''1'' ?b
      = (demo_db, \<lparr>status = 400,
                    body = JObj [(''error'', JStr (''Data too long for column '' @ [CHR 0x27] @
                                   ''name'' @ [CHR 0x27] @ '' at row 1''))]\<rparr>)"
    by (simp add: put_employee_def employeeSchema_def zod_object_def field_def string_min_def
          q_update_employee_def id_refused_def varchar255_def id_matches_def demo_env_def demo_db_def
          read_nat_def is_digit_def error_response_def)
  have lax_handler: "put_employee lax_env demo_db ''1'' ?b
      = (demo_db\<lparr>employees := [\<lparr>emp_id = 1, emp_name = replicate 255 (CHR ''a''),
                                     emp_position = ''Eng''\<rparr>]\<rparr>,
         \<lparr>status = 200,
          body = JObj [(''id'', JStr ''1''), (''name'', JStr (replicate 256 (CHR ''a''))),
                       (''position'', JStr ''Eng'')]\<rparr>)"
    by (simp add: put_employee_def employeeSchema_def zod_object_def field_def string_min_def
          q_update_employee_def id_refused_def varchar255_def id_matches_def demo_env_def lax_env_def
          demo_db_def read_nat_def is_digit_def)
  show ?thesis
    by (simp only: strict_route lax_route strict_handler lax_handler) simp
qed

section \<open>Creating an employee and reading it back\<close>

text \<open>
  Claim C7, as amended: for every name and position of at least 2 and at most 255
  characters each, an authenticated \<^verbatim>\<open>POST /employees\<close> on an available store answers
  201 with a record that carries the identifier the store assigned, and
  \<^verbatim>\<open>GET /employees/:id\<close> on the resulting store, with any path parameter that MySQL
  reads as that identifier, answers 200 with an equal record. The store satisfies
  \<^const>\<open>store_ok\<close>, as the initial store does and as every handler preserves.
\<close>

theorem create_then_get_by_id:
  assumes auth: "authenticate e (req_time rq) (req_authorization rq) = Inr c"
      and obj: "req_body rq = JObj kvs"
      and name: "field kvs ''name'' = JStr nm"
      and pos: "field kvs ''position'' = JStr p"
      and len_name: "2 \<le> length nm \<and> length nm \<le> 255"
      and len_pos: "2 \<le> length p \<and> length p \<le> 255"
      and up: "outage d = None"
      and inv: "store_ok d"
  shows "snd (post_employees_route e d rq)
           = \<lparr>status = 201,
              body = JObj [(''id'', JNum (int (employees_next d))),
                           (''name'', JStr nm), (''position'', JStr p)]\<rparr>
       \<and> (\<forall>pid. sql_id_of e pid = Some (employees_next d) \<longrightarrow>
             get_employee e (fst (post_employees_route e d rq)) pid
               = \<lparr>status = 200,
                  body = JObj [(''id'', JNum (int (employees_next d))),
                               (''name'', JStr nm), (''position'', JStr p)]\<rparr>)"
proof -
  let ?new = "\<lparr>emp_id = employees_next d, emp_name = nm, emp_position = p\<rparr>"
  let ?d' = "d\<lparr>employees := employees d @ [?new], employees_next := Suc (employees_next d)\<rparr>"
  have valid: "employeeSchema (req_body rq) = Inr (nm, p)"
    using obj name pos len_name len_pos by (simp add: employeeSchema_Inr)
  have ins: "q_insert_employee e d nm p = Inr (employees_next d, ?d')"
    using up len_name len_pos by (simp add: q_insert_employee_def varchar255_fits)
  have post: "post_employees_route e d rq
                = (?d', \<lparr>status = 201,
                         body = JObj [(''id'', JNum (int (employees_next d))),
                                      (''name'', JStr nm), (''position'', JStr p)]\<rparr>)"
    using auth valid ins by (simp add: post_employees_route_def post_employees_def)
  have get: "get_employee e ?d' pid
               = \<lparr>status = 200,
                  body = JObj [(''id'', JNum (int (employees_next d))),
                               (''name'', JStr nm), (''position'', JStr p)]\<rparr>"
    if pid: "sql_id_of e pid = Some (employees_next d)" for pid
  proof -
    have "id_matches e pid = (\<lambda>r. emp_id r = employees_next d)"
      using pid by (auto simp: id_matches_def fun_eq_iff)
    then have "filter (id_matches e pid) (employees d) = []"
      using fresh_id_no_row [OF inv] by simp
    then have "filter (id_matches e pid) (employees ?d') = [?new]"
      using pid by (simp add: id_matches_def)
    then show ?thesis
      using up by (simp add: get_employee_def q_select_employee_def employee_json_def)
  qed
  show ?thesis using post get by simp
qed

text \<open>The theorem at the name \<^verbatim>\<open>Al\<close>: the store assigns 2, and \<^verbatim>\<open>/employees/2\<close> returns the record.\<close>

theorem create_then_get_by_id_witness:
  "authenticate demo_env 2000 demo_header
     = Inr \<lparr>claim_userId = 1, claim_iat = 1000, claim_exp = 4600\<rparr>
   \<and> outage demo_db = None
   \<and> store_ok demo_db
   \<and> sql_id_of demo_env ''2'' = Some (employees_next demo_db)
   \<and> snd (post_employees_route demo_env demo_db
        \<lparr>req_authorization = demo_header, req_id = [],
         req_body = JObj [(''name'', JStr ''Al''), (''position'', JStr ''Ops'')],
         req_time = 2000\<rparr>)
      = \<lparr>status = 201,
         body = JObj [(''id'', JNum 2), (''name'', JStr ''Al''), (''position'', JStr ''Ops'')]\<rparr>
   \<and> get_employee demo_env
        (fst (post_employees_route demo_env demo_db
           \<lparr>req_authorization = demo_header, req_id = [],
            req_body = JObj [(''name'', JStr ''Al''), (''position'', JStr ''Ops'')],
            req_time = 2000\<rparr>)) ''2''
      = \<lparr>status = 200,
         body = JObj [(''id'', JNum 2), (''name'', JStr ''Al''), (''position'', JStr ''Ops'')]\<rparr>"
proof -
  let ?kvs = "[(''name'', JStr ''Al''), (''position'', JStr ''Ops'')]"
  let ?rq = "\<lparr>req_authorization = demo_header, req_id = [], req_body = JObj ?kvs,
              req_time = 2000\<rparr>"
  have auth: "authenticate demo_env (req_time ?rq) (req_authorization ?rq)
                = Inr \<lparr>claim_userId = 1, claim_iat = 1000, claim_exp = 4600\<rparr>"
    by (simp add: demo_authenticate)
  have obj: "req_body ?rq = JObj ?kvs" by simp
  have name: "field ?kvs ''name'' = JStr ''Al''" by (simp add: field_def)
  have pos: "field ?kvs ''position'' = JStr ''Ops''" by (simp add: field_def)
  have len_name: "2 \<le> length ''Al'' \<and> length ''Al'' \<le> 255" by simp
  have len_pos: "2 \<le> length ''Ops'' \<and> length ''Ops'' \<le> 255" by simp
  have up: "outage demo_db = None" by (simp add: demo_db_def)
  have inv: "store_ok demo_db" by (simp add: store_ok_def demo_db_def)
  have next_id: "employees_next demo_db = 2" by (simp add: demo_db_def)
  have pid: "sql_id_of demo_env ''2'' = Some (employees_next demo_db)"
    by (simp add: demo_env_def demo_db_def read_nat_def is_digit_def)
  show ?thesis
    using create_then_get_by_id [OF auth obj name pos len_name len_pos up inv] auth up inv pid
      next_id
    by simp
qed

text \<open>
  Claim C7 as the spec states it, for every name of length at least 2, fails at a name of
  256 characters, which the column \<^verbatim>\<open>name VARCHAR(255)\<close> (line 39) does not hold: in
  strict mode the \<^verbatim>\<open>INSERT\<close> is refused and no record is returned (status 400); out of
  strict mode the record returned by the creation holds the whole name and the record
  read back its first 255 characters.
\<close>

theorem create_overlong_name:
  "post_employees_route demo_env demo_db
     \<lparr>req_authorization = demo_header, req_id = [],
      req_body = JObj [(''name'', JStr (replicate 256 (CHR ''a''))), (''position'', JStr ''Eng'')],
      req_time = 2000\<rparr>
   = (demo_db, \<lparr>status = 400,
                body = JObj [(''error'', JStr (''Data too long for column '' @ [CHR 0x27] @
                               ''name'' @ [CHR 0x27] @ '' at row 1''))]\<rparr>)
   \<and> snd (post_employees_route lax_env demo_db
        \<lparr>req_authorization = demo_header, req_id = [],
         req_body = JObj [(''name'', JStr (replicate 256 (CHR ''a''))),
                          (''position'', JStr ''Eng'')],
         req_time = 2000\<rparr>)
      = \<lparr>status = 201,
         body = JObj [(''id'', JNum 2), (''name'', JStr (replicate 256 (CHR ''a''))),
                      (''position'', JStr ''Eng'')]\<rparr>
   \<and> get_employee lax_env
        (fst (post_employees_route lax_env demo_db
           \<lparr>req_authorization = demo_header, req_id = [],
            req_body = JObj [(''name'', JStr (replicate 256 (CHR ''a''))),
                             (''position'', JStr ''Eng'')],
            req_time = 2000\<rparr>)) ''2''
      = \<lparr>status = 200,
         body = JObj [(''id'', JNum 2), (''name'', JStr (replicate 255 (CHR ''a''))),
                      (''position'', JStr ''Eng'')]\<rparr>"
proof -
  let ?b = "JObj [(''name'', JStr (replicate 256 (CHR ''a''))), (''position'', JStr ''Eng'')]"
  let ?rq = "\<lparr>req_authorization = demo_header, req_id = [], req_body = ?b, req_time = 2000\<rparr>"
  let ?d' = "demo_db\<lparr>employees := employees demo_db @
                        [\<lparr>emp_id = 2, emp_name = replicate 255 (CHR ''a''),
                          emp_position = ''Eng''\<rparr>],
                      employees_next := 3\<rparr>"
  have strict_route: "post_employees_route demo_env demo_db ?rq = post_employees demo_env demo_db ?b"
    by (simp add: post_employees_route_def demo_authenticate)
  have lax_route: "post_employees_route lax_env demo_db ?rq = post_employees lax_env demo_db ?b"
    by (simp add: post_employees_route_def demo_authenticate_lax)
  have strict_handler: "post_employees demo_env demo_db ?b
      = (demo_db, \<lparr>status = 400,
                    body = JObj [(''error'', JStr (''Data too long for column '' @ [CHR 0x27] @
                                   ''name'' @ [CHR 0x27] @ '' at row 1''))]\<rparr>)"
    by (simp add: post_employees_def employeeSchema_def zod_object_def field_def string_min_def
          q_insert_employee_def varchar255_def demo_env_def demo_db_def error_response_def)
  have lax_handler: "post_employees lax_env demo_db ?b
      = (?d', \<lparr>status = 201,
               body = JObj [(''id'', JNum 2), (''name'', JStr (replicate 256 (CHR ''a''))),
                            (''position'', JStr ''Eng'')]\<rparr>)"
    by (simp add: post_employees_def employeeSchema_def zod_object_def field_def string_min_def
          q_insert_employee_def varchar255_def demo_env_def lax_env_def demo_db_def)
  have lax_stored: "get_employee lax_env ?d' ''2''
      = \<lparr>status = 200,
         body = JObj [(''id'', JNum 2), (''name'', JStr (replicate 255 (CHR ''a''))),
                      (''position'', JStr ''Eng'')]\<rparr>"
    by (simp add: get_employee_def q_select_employee_def id_matches_def employee_json_def
          demo_env_def lax_env_def demo_db_def read_nat_def is_digit_def)
  have lax_get: "get_employee lax_env (fst (post_employees lax_env demo_db ?b)) ''2''
      = \<lparr>status = 200,
         body = JObj [(''id'', JNum 2), (''name'', JStr (replicate 255 (CHR ''a''))),
                      (''position'', JStr ''Eng'')]\<rparr>"
    by (simp only: lax_handler fst_conv lax_stored)
  show ?thesis
    by (simp only: strict_route lax_route lax_get) (simp add: strict_handler lax_handler)
qed

section \<open>Updating with a body that fails validation\<close>

text \<open>
  Claim C6, as amended: for every \<^verbatim>\<open>PUT /employees/:id\<close> request that passes
  \<^verbatim>\<open>authenticate\<close> and whose body fails the employee schema, the response is 400 with
  the body \<^verbatim>\<open>{ error: "Validation failed", details }\<close>, where \<^verbatim>\<open>details\<close> holds an
  issue for each of the fields \<^verbatim>\<open>name\<close> and \<^verbatim>\<open>position\<close> that is missing, is not a
  string or is shorter than 2 (for a body that is not an object, the one issue that says
  so), and the store is unchanged.
\<close>

theorem put_invalid_body_is_400_with_details:
  assumes auth: "authenticate e (req_time rq) (req_authorization rq) = Inr c"
      and bad: "employeeSchema (req_body rq) = Inl is"
  shows "put_employee_route e d rq
           = (d, \<lparr>status = 400,
                  body = JObj [(''error'', JStr ''Validation failed''),
                               (''details'', JArr (map issue_json is))]\<rparr>)
       \<and> (\<forall>kvs k. req_body rq = JObj kvs \<and> (k = ''name'' \<or> k = ''position'') \<and>
                   (\<forall>s. field kvs k = JStr s \<longrightarrow> length s < 2) \<longrightarrow>
                   (\<exists>i \<in> set is. issue_path i = [k]))
       \<and> ((\<forall>kvs. req_body rq \<noteq> JObj kvs) \<longrightarrow>
             is = [InvalidType [] ZObject (getParsedType (req_body rq))])"
proof (intro conjI allI impI)
  show "put_employee_route e d rq
          = (d, \<lparr>status = 400,
                 body = JObj [(''error'', JStr ''Validation failed''),
                              (''details'', JArr (map issue_json is))]\<rparr>)"
    using auth bad
    by (simp add: put_employee_route_def put_employee_def validation_response_def)
next
  fix kvs k
  assume a: "req_body rq = JObj kvs \<and> (k = ''name'' \<or> k = ''position'') \<and>
             (\<forall>s. field kvs k = JStr s \<longrightarrow> length s < 2)"
  let ?n = "string_min 2 ''Name must be at least 2 characters'' [''name''] (field kvs ''name'')"
  let ?p = "string_min 2 ''Position cannot be empty'' [''position''] (field kvs ''position'')"
  from a bad have split: "is = issues_of ?n @ issues_of ?p"
    by (simp add: employeeSchema_Inl_object)
  from a consider "k = ''name''" | "k = ''position''" by blast
  then show "\<exists>i \<in> set is. issue_path i = [k]"
  proof cases
    case 1
    with a obtain i where "?n = Inl [i]" and "issue_path i = [''name'']"
      using string_min_violated [of "field kvs ''name''" 2] by blast
    with split 1 show ?thesis by simp
  next
    case 2
    with a obtain i where "?p = Inl [i]" and "issue_path i = [''position'']"
      using string_min_violated [of "field kvs ''position''" 2] by blast
    with split 2 show ?thesis by simp
  qed
next
  assume "\<forall>kvs. req_body rq \<noteq> JObj kvs"
  then show "is = [InvalidType [] ZObject (getParsedType (req_body rq))]"
    using bad employeeSchema_not_object [of "req_body rq"] by simp
qed

text \<open>
  The theorem at a body with a one-character name and a number for the position: both
  fields are listed.
\<close>

theorem put_invalid_body_is_400_with_details_witness:
  "authenticate demo_env 2000 demo_header
     = Inr \<lparr>claim_userId = 1, claim_iat = 1000, claim_exp = 4600\<rparr>
   \<and> employeeSchema (JObj [(''name'', JStr ''A''), (''position'', JNum 3)])
     = Inl [TooSmall [''name''] 2 ''Name must be at least 2 characters'',
            InvalidType [''position''] ZString ZNumber]
   \<and> put_employee_route demo_env demo_db
        \<lparr>req_authorization = demo_header, req_id = ''1'',
         req_body = JObj [(''name'', JStr ''A''), (''position'', JNum 3)], req_time = 2000\<rparr>
      = (demo_db,
         \<lparr>status = 400,
          body = JObj [(''error'', JStr ''Validation failed''),
                       (''details'', JArr (map issue_json
                          [TooSmall [''name''] 2 ''Name must be at least 2 characters'',
                           InvalidType [''position''] ZString ZNumber]))]\<rparr>)"
proof -
  let ?b = "JObj [(''name'', JStr ''A''), (''position'', JNum 3)]"
  let ?rq = "\<lparr>req_authorization = demo_header, req_id = ''1'', req_body = ?b, req_time = 2000\<rparr>"
  have auth: "authenticate demo_env (req_time ?rq) (req_authorization ?rq)
                = Inr \<lparr>claim_userId = 1, claim_iat = 1000, claim_exp = 4600\<rparr>"
    by (simp add: demo_authenticate)
  have bad: "employeeSchema (req_body ?rq)
               = Inl [TooSmall [''name''] 2 ''Name must be at least 2 characters'',
                      InvalidType [''position''] ZString ZNumber]"
    by (simp add: employeeSchema_def zod_object_def field_def string_min_def)
  show ?thesis
    using put_invalid_body_is_400_with_details [OF auth bad, of demo_db] auth bad by simp
qed

text \<open>
  Claim C6 as the spec states it, for every request, fails at a request without an
  \<^verbatim>\<open>Authorization\<close> header: \<^verbatim>\<open>authenticate\<close> runs before the handler (line 227) and
  answers 401 without looking at the body.
\<close>

theorem put_invalid_body_without_token:
  "employeeSchema (JObj [(''name'', JStr ''A''), (''position'', JStr ''Eng'')])
     = Inl [TooSmall [''name''] 2 ''Name must be at least 2 characters'']
   \<and> put_employee_route demo_env demo_db
        \<lparr>req_authorization = None, req_id = ''1'',
         req_body = JObj [(''name'', JStr ''A''), (''position'', JStr ''Eng'')],
         req_time = 2000\<rparr>
      = (demo_db, \<lparr>status = 401, body = JObj [(''error'', JStr ''Access denied'')]\<rparr>)"
  by (simp add: employeeSchema_def zod_object_def field_def string_min_def
        put_employee_route_def authenticate_def bearer_token_def error_response_def)

text \<open>Whether or not the request is authenticated, a refused body leaves the store as it was.\<close>

lemma put_invalid_body_store_unchanged:
  "employeeSchema (req_body rq) = Inl is \<Longrightarrow> fst (put_employee_route e d rq) = d"
  by (simp add: put_employee_route_def put_employee_def split: sum.splits)

section \<open>Issuing a token and verifying it\<close>

text \<open>
  Claim C8: for every subject id, the token issued for it at time \<open>t0\<close> verifies to
  the claims with that subject id at every time strictly before \<open>t0 + 3600\<close> seconds,
  and to \<^verbatim>\<open>TokenExpiredError\<close> at every time after \<open>t0 + 3600\<close>. It is stated for
  a serialisation whose parser reads back what was written for this token.
\<close>

theorem issued_token_verifies_until_expiry:
  assumes c: "c = \<lparr>claim_userId = uid, claim_iat = t0, claim_exp = t0 + 3600\<rparr>"
      and codec: "jwt_decode e (jwt_encode e (c, jwt_mac e c)) = Some (c, jwt_mac e c)"
  shows "(t < t0 + 3600 \<longrightarrow> jwt_verify e t (jwt_sign e t0 uid) = Inr c)
       \<and> (t0 + 3600 < t \<longrightarrow> jwt_verify e t (jwt_sign e t0 uid) = Inl TokenExpiredError)"
  using c codec by (auto simp: jwt_verify_def jwt_sign_def Let_def)

text \<open>
  The theorem at the token issued at time 1000 for user 1: valid one second before its
  expiry at 4600, expired one second after.
\<close>

theorem issued_token_verifies_until_expiry_witness:
  "jwt_sign demo_env 1000 1 = ''1.1000.4600.sig4601''
   \<and> jwt_decode demo_env ''1.1000.4600.sig4601''
     = Some (\<lparr>claim_userId = 1, claim_iat = 1000, claim_exp = 4600\<rparr>, ''sig4601'')
   \<and> jwt_verify demo_env 4599 (jwt_sign demo_env 1000 1)
     = Inr \<lparr>claim_userId = 1, claim_iat = 1000, claim_exp = 4600\<rparr>
   \<and> jwt_verify demo_env 4601 (jwt_sign demo_env 1000 1) = Inl TokenExpiredError"
proof -
  let ?c = "\<lparr>claim_userId = 1, claim_iat = 1000, claim_exp = 1000 + 3600\<rparr>"
  have c: "?c = \<lparr>claim_userId = 1, claim_iat = 1000, claim_exp = 1000 + 3600\<rparr>" by simp
  have mac: "jwt_mac demo_env ?c = ''sig4601''"
    by (simp add: demo_env_def demo_mac_def show_nat_4601)
  have enc: "jwt_encode demo_env (?c, ''sig4601'') = ''1.1000.4600.sig4601''"
    by (simp add: demo_env_def demo_encode_def show_nat_1 show_nat_1000 show_nat_4600)
  have dec: "jwt_decode demo_env ''1.1000.4600.sig4601'' = Some (?c, ''sig4601'')"
    by (simp add: demo_env_def demo_decode_issued)
  have codec: "jwt_decode demo_env (jwt_encode demo_env (?c, jwt_mac demo_env ?c))
                 = Some (?c, jwt_mac demo_env ?c)"
    by (simp only: mac enc dec)
  have early: "(4599::nat) < 1000 + 3600" by simp
  have late: "(1000::nat) + 3600 < 4601" by simp
  show ?thesis
    using issued_token_verifies_until_expiry [OF c codec, of 4599]
          issued_token_verifies_until_expiry [OF c codec, of 4601]
          early late dec demo_sign
    by simp
qed

section \<open>What a login answer tells about an email\<close>

text \<open>
  Claim C9: for every login body that passes the login schema, the response when no
  user row holds the email and the response when a row holds it and the password does not
  match its hash are the same: status 401 and the body
  \<^verbatim>\<open>{ error: "Invalid credentials" }\<close>. Both stores are available; \<^term>\<open>find\<close> gives
  the row \<^verbatim>\<open>rows[0]\<close> of the \<^verbatim>\<open>SELECT\<close>.
\<close>

theorem login_answers_do_not_tell_registered:
  assumes valid: "loginSchema (email_ok e) b = Inr (email, pw)"
      and up1: "outage d1 = None"
      and up2: "outage d2 = None"
      and absent: "find (\<lambda>u. user_email u = email) (users d1) = None"
      and present: "find (\<lambda>u. user_email u = email) (users d2) = Some u"
      and wrong: "\<not> bcrypt_compare e pw (user_password u)"
  shows "post_login e d1 t1 b
           = \<lparr>status = 401, body = JObj [(''error'', JStr ''Invalid credentials'')]\<rparr>
       \<and> post_login e d2 t2 b = post_login e d1 t1 b"
proof -
  have rows1: "filter (\<lambda>u. user_email u = email) (users d1) = []"
    using absent by (simp add: filter_find_None)
  obtain us where rows2: "filter (\<lambda>u. user_email u = email) (users d2) = u # us"
    using find_Some_filter [OF present] by blast
  have r1: "post_login e d1 t1 b = error_response 401 ''Invalid credentials''"
    using valid up1 rows1 by (simp add: post_login_def q_select_user_def)
  have r2: "post_login e d2 t2 b = error_response 401 ''Invalid credentials''"
    using valid up2 rows2 wrong by (simp add: post_login_def q_select_user_def)
  show ?thesis using r1 r2 by (simp add: error_response_def)
qed

text \<open>
  The theorem at the email \<^verbatim>\<open>a@b.com\<close> with a wrong password, on the empty store and on
  the store where the email is registered.
\<close>

theorem login_answers_do_not_tell_registered_witness:
  "loginSchema (email_ok demo_env) (JObj [(''email'', JStr ''a@b.com''), (''password'', JStr ''guess'')])
     = Inr (''a@b.com'', ''guess'')
   \<and> find (\<lambda>u. user_email u = ''a@b.com'') (users initial_db) = None
   \<and> find (\<lambda>u. user_email u = ''a@b.com'') (users demo_db)
     = Some \<lparr>user_id = 1, user_email = ''a@b.com'', user_password = ''hash:secret1''\<rparr>
   \<and> \<not> bcrypt_compare demo_env ''guess'' ''hash:secret1''
   \<and> post_login demo_env initial_db 2000
        (JObj [(''email'', JStr ''a@b.com''), (''password'', JStr ''guess'')])
     = \<lparr>status = 401, body = JObj [(''error'', JStr ''Invalid credentials'')]\<rparr>
   \<and> post_login demo_env demo_db 2000
        (JObj [(''email'', JStr ''a@b.com''), (''password'', JStr ''guess'')])
     = \<lparr>status = 401, body = JObj [(''error'', JStr ''Invalid credentials'')]\<rparr>"
proof -
  let ?b = "JObj [(''email'', JStr ''a@b.com''), (''password'', JStr ''guess'')]"
  let ?u = "\<lparr>user_id = 1, user_email = ''a@b.com'', user_password = ''hash:secret1''\<rparr>"
  have valid: "loginSchema (email_ok demo_env) ?b = Inr (''a@b.com'', ''guess'')"
    by (simp add: loginSchema_def zod_object_def field_def string_email_def string_min_def
          demo_env_def)
  have up1: "outage initial_db = None" by (simp add: initial_db_def)
  have up2: "outage demo_db = None" by (simp add: demo_db_def)
  have absent: "find (\<lambda>u. user_email u = ''a@b.com'') (users initial_db) = None"
    by (simp add: initial_db_def)
  have present: "find (\<lambda>u. user_email u = ''a@b.com'') (users demo_db) = Some ?u"
    by (simp add: demo_db_def)
  have wrong: "\<not> bcrypt_compare demo_env ''guess'' (user_password ?u)"
    by (simp add: demo_env_def)
  show ?thesis
    using login_answers_do_not_tell_registered [OF valid up1 up2 absent present wrong, of 2000 2000]
          valid absent present wrong
    by simp
qed

section \<open>The type of the id in the answers of update and create\<close>

text \<open>
  Claim C10: a \<^verbatim>\<open>PUT /employees/:id\<close> that answers 200 carries as \<^verbatim>\<open>id\<close> the path
  parameter as the string it arrived as, while a \<^verbatim>\<open>POST /employees\<close> that answers 201
  carries the number the store assigned.
\<close>

theorem update_id_is_string_create_id_is_number:
  "(put_employee_route e d rq = (d', r) \<and> status r = 200 \<longrightarrow>
      (\<exists>nm p. body r = JObj [(''id'', JStr (req_id rq)),
                              (''name'', JStr nm), (''position'', JStr p)]))
   \<and> (post_employees_route e d rq = (d', r) \<and> status r = 201 \<longrightarrow>
      (\<exists>nm p. body r = JObj [(''id'', JNum (int (employees_next d))),
                              (''name'', JStr nm), (''position'', JStr p)]))"
proof (intro conjI impI)
  assume a: "put_employee_route e d rq = (d', r) \<and> status r = 200"
  show "\<exists>nm p. body r = JObj [(''id'', JStr (req_id rq)),
                               (''name'', JStr nm), (''position'', JStr p)]"
  proof (cases "authenticate e (req_time rq) (req_authorization rq)")
    case (Inl x)
    with a authenticate_Inl_status [OF Inl] show ?thesis
      by (auto simp: put_employee_route_def)
  next
    case (Inr c)
    with a show ?thesis
      by (auto simp: put_employee_route_def put_employee_def validation_response_def
            error_response_def split: sum.splits prod.splits if_splits)
  qed
next
  assume a: "post_employees_route e d rq = (d', r) \<and> status r = 201"
  show "\<exists>nm p. body r = JObj [(''id'', JNum (int (employees_next d))),
                               (''name'', JStr nm), (''position'', JStr p)]"
  proof (cases "authenticate e (req_time rq) (req_authorization rq)")
    case (Inl x)
    with a authenticate_Inl_status [OF Inl] show ?thesis
      by (auto simp: post_employees_route_def)
  next
    case (Inr c)
    with a show ?thesis
      by (auto simp: post_employees_route_def post_employees_def validation_response_def
            error_response_def q_insert_employee_def
            split: sum.splits prod.splits if_splits option.splits)
  qed
qed

text \<open>
  The theorem at an update of employee 1 and at a creation on the same store: the first
  answers the string \<^verbatim>\<open>"1"\<close>, the second the number 2.
\<close>

theorem update_id_is_string_create_id_is_number_witness:
  "put_employee_route demo_env demo_db
     \<lparr>req_authorization = demo_header, req_id = ''1'',
      req_body = JObj [(''name'', JStr ''Jo''), (''position'', JStr ''Ops'')], req_time = 2000\<rparr>
     = (demo_db\<lparr>employees := [\<lparr>emp_id = 1, emp_name = ''Jo'', emp_position = ''Ops''\<rparr>]\<rparr>,
        \<lparr>status = 200,
         body = JObj [(''id'', JStr ''1''), (''name'', JStr ''Jo''), (''position'', JStr ''Ops'')]\<rparr>)
   \<and> post_employees_route demo_env demo_db
     \<lparr>req_authorization = demo_header, req_id = [],
      req_body = JObj [(''name'', JStr ''Al''), (''position'', JStr ''Ops'')], req_time = 2000\<rparr>
     = (demo_db\<lparr>employees := employees demo_db @
                      [\<lparr>emp_id = 2, emp_name = ''Al'', emp_position = ''Ops''\<rparr>],
                 employees_next := 3\<rparr>,
        \<lparr>status = 201,
         body = JObj [(''id'', JNum 2), (''name'', JStr ''Al''), (''position'', JStr ''Ops'')]\<rparr>)
   \<and> (\<exists>nm p. JObj [(''id'', JStr ''1''), (''name'', JStr ''Jo''), (''position'', JStr ''Ops'')]
               = JObj [(''id'', JStr ''1''), (''name'', JStr nm), (''position'', JStr p)])
   \<and> (\<exists>nm p. JObj [(''id'', JNum 2), (''name'', JStr ''Al''), (''position'', JStr ''Ops'')]
               = JObj [(''id'', JNum (int (employees_next demo_db))),
                       (''name'', JStr nm), (''position'', JStr p)])"
proof -
  let ?put = "\<lparr>req_authorization = demo_header, req_id = ''1'',
               req_body = JObj [(''name'', JStr ''Jo''), (''position'', JStr ''Ops'')],
               req_time = 2000\<rparr>"
  let ?post = "\<lparr>req_authorization = demo_header, req_id = [],
                req_body = JObj [(''name'', JStr ''Al''), (''position'', JStr ''Ops'')],
                req_time = 2000\<rparr>"
  let ?r200 = "\<lparr>status = 200,
                body = JObj [(''id'', JStr ''1''), (''name'', JStr ''Jo''),
                             (''position'', JStr ''Ops'')]\<rparr>"
  let ?r201 = "\<lparr>status = 201,
                body = JObj [(''id'', JNum 2), (''name'', JStr ''Al''),
                             (''position'', JStr ''Ops'')]\<rparr>"
  let ?d1 = "demo_db\<lparr>employees := [\<lparr>emp_id = 1, emp_name = ''Jo'', emp_position = ''Ops''\<rparr>]\<rparr>"
  let ?d2 = "demo_db\<lparr>employees := employees demo_db @
                          [\<lparr>emp_id = 2, emp_name = ''Al'', emp_position = ''Ops''\<rparr>],
                      employees_next := 3\<rparr>"
  have put_route: "put_employee_route demo_env demo_db ?put
                     = put_employee demo_env demo_db ''1'' (req_body ?put)"
    by (simp add: put_employee_route_def demo_authenticate)
  have put_handler: "put_employee demo_env demo_db ''1'' (req_body ?put) = (?d1, ?r200)"
    by (simp add: put_employee_def employeeSchema_def zod_object_def field_def string_min_def
          q_update_employee_def id_refused_def varchar255_def id_matches_def demo_env_def demo_db_def
          read_nat_def is_digit_def)
  have post_route: "post_employees_route demo_env demo_db ?post
                      = post_employees demo_env demo_db (req_body ?post)"
    by (simp add: post_employees_route_def demo_authenticate)
  have post_handler: "post_employees demo_env demo_db (req_body ?post) = (?d2, ?r201)"
    by (simp add: post_employees_def employeeSchema_def zod_object_def field_def string_min_def
          q_insert_employee_def varchar255_def demo_env_def demo_db_def)
  have p: "put_employee_route demo_env demo_db ?put = (?d1, ?r200) \<and> status ?r200 = 200"
    by (simp only: put_route put_handler) simp
  have q: "post_employees_route demo_env demo_db ?post = (?d2, ?r201) \<and> status ?r201 = 201"
    by (simp only: post_route post_handler) simp
  have e1: "\<exists>nm p. body ?r200 = JObj [(''id'', JStr (req_id ?put)),
                                      (''name'', JStr nm), (''position'', JStr p)]"
    using update_id_is_string_create_id_is_number [of demo_env demo_db ?put ?d1 ?r200] p
    by blast
  have e2: "\<exists>nm p. body ?r201 = JObj [(''id'', JNum (int (employees_next demo_db))),
                                      (''name'', JStr nm), (''position'', JStr p)]"
    using update_id_is_string_create_id_is_number [of demo_env demo_db ?post ?d2 ?r201] q
    by blast
  show ?thesis
    using p q e1 e2 by simp
qed

section \<open>Two registrations of one email at the same time\<close>

text \<open>
  Claim C4 says that an \<^verbatim>\<open>INSERT\<close> refused by the uniqueness constraint on
  \<^verbatim>\<open>users.email\<close> is answered 409. Two requests register \<^verbatim>\<open>c@d.com\<close>; both run
  their existence check on the store where the email is absent, and both go on. The first
  \<^verbatim>\<open>INSERT\<close> succeeds (201). The second runs on the store the first one left, is
  refused as a duplicate, and the handler's \<^verbatim>\<open>catch\<close> (lines 162 to 165) answers 500.
\<close>

theorem concurrent_duplicate_registration_is_500:
  "register_check demo_env demo_db
     (JObj [(''email'', JStr ''c@d.com''), (''password'', JStr ''secret2'')])
     = Inr (''c@d.com'', ''hash:secret2'')
   \<and> snd (register_insert demo_env demo_db (''c@d.com'', ''hash:secret2''))
     = \<lparr>status = 201, body = JObj [(''message'', JStr ''User registered successfully'')]\<rparr>
   \<and> q_insert_user demo_env
        (fst (register_insert demo_env demo_db (''c@d.com'', ''hash:secret2'')))
        ''c@d.com'' ''hash:secret2''
     = Inl (''Duplicate entry '' @ [CHR 0x27] @ ''c@d.com'' @ [CHR 0x27] @
            '' for key '' @ [CHR 0x27] @ ''users.email'' @ [CHR 0x27])
   \<and> snd (register_insert demo_env
        (fst (register_insert demo_env demo_db (''c@d.com'', ''hash:secret2'')))
        (''c@d.com'', ''hash:secret2''))
     = \<lparr>status = 500, body = JObj [(''error'', JStr ''Registration failed'')]\<rparr>"
proof -
  let ?d1 = "demo_db\<lparr>users := users demo_db @
                         [\<lparr>user_id = 2, user_email = ''c@d.com'',
                           user_password = ''hash:secret2''\<rparr>],
                      users_next := 3\<rparr>"
  have check: "register_check demo_env demo_db
                 (JObj [(''email'', JStr ''c@d.com''), (''password'', JStr ''secret2'')])
                 = Inr (''c@d.com'', ''hash:secret2'')"
    by (simp add: register_check_def userSchema_def zod_object_def field_def string_email_def
          string_min_def q_select_user_def demo_env_def demo_db_def)
  have first: "register_insert demo_env demo_db (''c@d.com'', ''hash:secret2'')
                 = (?d1, \<lparr>status = 201,
                          body = JObj [(''message'', JStr ''User registered successfully'')]\<rparr>)"
    by (simp add: register_insert_def q_insert_user_def varchar255_def demo_env_def demo_db_def)
  have dup: "q_insert_user demo_env ?d1 ''c@d.com'' ''hash:secret2''
               = Inl (''Duplicate entry '' @ [CHR 0x27] @ ''c@d.com'' @ [CHR 0x27] @
                      '' for key '' @ [CHR 0x27] @ ''users.email'' @ [CHR 0x27])"
    by (simp add: q_insert_user_def varchar255_def demo_env_def demo_db_def)
  have second: "register_insert demo_env ?d1 (''c@d.com'', ''hash:secret2'')
                  = (?d1, error_response 500 ''Registration failed'')"
    by (simp only: register_insert_def fst_conv snd_conv dup sum.case)
  show ?thesis
    by (simp only: check first fst_conv snd_conv dup second) (simp add: error_response_def)
qed

section \<open>A storage failure\<close>

text \<open>
  Claim C5 says that on every route a storage failure is answered 500 with a stable
  message and without the underlying error's message. While the database refuses
  connections, \<^verbatim>\<open>POST /employees\<close> and \<^verbatim>\<open>PUT /employees/:id\<close> answer 400 (lines 191
  to 192 and 251 to 252), and they and the \<^verbatim>\<open>GET\<close> and \<^verbatim>\<open>DELETE\<close> routes put the
  error's own message in the body (lines 202, 221, 270). Only \<^verbatim>\<open>POST /login\<close> (and
  \<^verbatim>\<open>POST /register\<close>) answer as the claim says.
\<close>

theorem storage_failure_message_in_response:
  "post_employees_route demo_env down_db
     \<lparr>req_authorization = demo_header, req_id = [],
      req_body = JObj [(''name'', JStr ''Al''), (''position'', JStr ''Ops'')], req_time = 2000\<rparr>
     = (down_db, \<lparr>status = 400,
                  body = JObj [(''error'', JStr ''connect ECONNREFUSED 127.0.0.1:3306'')]\<rparr>)
   \<and> put_employee_route demo_env down_db
     \<lparr>req_authorization = demo_header, req_id = ''1'',
      req_body = JObj [(''name'', JStr ''Al''), (''position'', JStr ''Ops'')], req_time = 2000\<rparr>
     = (down_db, \<lparr>status = 400,
                  body = JObj [(''error'', JStr ''connect ECONNREFUSED 127.0.0.1:3306'')]\<rparr>)
   \<and> get_employee demo_env down_db ''1''
     = \<lparr>status = 500, body = JObj [(''error'', JStr ''connect ECONNREFUSED 127.0.0.1:3306'')]\<rparr>
   \<and> get_employees down_db
     = \<lparr>status = 500, body = JObj [(''error'', JStr ''connect ECONNREFUSED 127.0.0.1:3306'')]\<rparr>
   \<and> delete_employee_route demo_env down_db
     \<lparr>req_authorization = demo_header, req_id = ''1'', req_body = JUndefined, req_time = 2000\<rparr>
     = (down_db, \<lparr>status = 500,
                  body = JObj [(''error'', JStr ''connect ECONNREFUSED 127.0.0.1:3306'')]\<rparr>)
   \<and> post_login demo_env down_db 2000
       (JObj [(''email'', JStr ''a@b.com''), (''password'', JStr ''secret1'')])
     = \<lparr>status = 500, body = JObj [(''error'', JStr ''Login failed'')]\<rparr>"
proof -
  let ?b = "JObj [(''name'', JStr ''Al''), (''position'', JStr ''Ops'')]"
  have down: "outage down_db = Some ''connect ECONNREFUSED 127.0.0.1:3306''"
    by (simp add: down_db_def)
  have valid: "employeeSchema ?b = Inr (''Al'', ''Ops'')"
    by (simp add: employeeSchema_Inr field_def)
  have post: "post_employees demo_env down_db ?b
                = (down_db, error_response 400 ''connect ECONNREFUSED 127.0.0.1:3306'')"
    by (simp add: post_employees_def valid q_insert_employee_def down)
  have put: "put_employee demo_env down_db ''1'' ?b
               = (down_db, error_response 400 ''connect ECONNREFUSED 127.0.0.1:3306'')"
    by (simp add: put_employee_def valid q_update_employee_def down)
  have del: "delete_employee demo_env down_db ''1''
               = (down_db, error_response 500 ''connect ECONNREFUSED 127.0.0.1:3306'')"
    by (simp add: delete_employee_def q_delete_employee_def down)
  have get1: "get_employee demo_env down_db ''1''
                = error_response 500 ''connect ECONNREFUSED 127.0.0.1:3306''"
    by (simp add: get_employee_def q_select_employee_def down)
  have get_all: "get_employees down_db
                = error_response 500 ''connect ECONNREFUSED 127.0.0.1:3306''"
    by (simp add: get_employees_def q_select_employees_def down)
  have login: "post_login demo_env down_db 2000
                 (JObj [(''email'', JStr ''a@b.com''), (''password'', JStr ''secret1'')])
                = error_response 500 ''Login failed''"
    by (simp add: post_login_def loginSchema_def zod_object_def field_def string_email_def
          string_min_def q_select_user_def down demo_env_def)
  show ?thesis
    by (simp add: post_employees_route_def put_employee_route_def delete_employee_route_def
          demo_authenticate post put del get1 get_all login error_response_def)
qed

end
